theory Spec2Isabelle
  imports Complex_Main "HOL-Library.Code_Target_Nat"
begin

section \<open>JavaScript values\<close>

text \<open>
  The endpoint and the results page work on values that come out of \<^verbatim>\<open>JSON.parse\<close>,
  whose shape the TypeScript types do not enforce at run time. A value is therefore
  modelled dynamically. A number is an exact real, or one of the three special values of
  a double; rounding to binary64 is not modelled in this section. A string is a list of
  code units, one \<^typ>\<open>char\<close> per unit, so \<^term>\<open>length\<close> is \<^verbatim>\<open>.length\<close>.
  An object is the list of its members in the order they were written; a later member
  with the same key replaces an earlier one, as in \<^verbatim>\<open>JSON.parse\<close>.
\<close>

datatype jsnum = NaN | NegInf | Fin real | PosInf

datatype jsval =
    JUndefined
  | JNull
  | JBool bool
  | JNumber jsnum
  | JString string
  | JArray "jsval list"
  | JObject "(string \<times> jsval) list"

text \<open>A thrown \<^verbatim>\<open>Error\<close>; the handlers only ever read its \<^verbatim>\<open>message\<close>.\<close>

datatype exn = Exn (message: string)

subsection \<open>Numbers\<close>

fun Math_min :: "jsnum \<Rightarrow> jsnum \<Rightarrow> jsnum" where
  "Math_min NaN _ = NaN"
| "Math_min _ NaN = NaN"
| "Math_min NegInf _ = NegInf"
| "Math_min _ NegInf = NegInf"
| "Math_min PosInf y = y"
| "Math_min x PosInf = x"
| "Math_min (Fin a) (Fin b) = Fin (min a b)"

fun Math_max :: "jsnum \<Rightarrow> jsnum \<Rightarrow> jsnum" where
  "Math_max NaN _ = NaN"
| "Math_max _ NaN = NaN"
| "Math_max PosInf _ = PosInf"
| "Math_max _ PosInf = PosInf"
| "Math_max NegInf y = y"
| "Math_max x NegInf = x"
| "Math_max (Fin a) (Fin b) = Fin (max a b)"

text \<open>\<^verbatim>\<open>function clamp(n, min, max) { return Math.max(min, Math.min(max, n)); }\<close>\<close>

definition clamp :: "jsnum \<Rightarrow> jsnum \<Rightarrow> jsnum \<Rightarrow> jsnum" where
  "clamp n lo hi = Math_max lo (Math_min hi n)"

subsection \<open>Strings\<close>

text \<open>
  White space and line terminators, as \<^verbatim>\<open>String.prototype.trim\<close> and the numeric
  string grammar strip them: TAB, LF, VT, FF, CR, SP and NBSP among the code units below
  256.
\<close>

definition is_ws :: "char \<Rightarrow> bool" where
  "is_ws c = ((of_char c :: nat) \<in> {9, 10, 11, 12, 13, 32, 160})"

definition js_trim :: "string \<Rightarrow> string" where
  "js_trim s = rev (dropWhile is_ws (rev (dropWhile is_ws s)))"

definition startsWith :: "string \<Rightarrow> string \<Rightarrow> bool" where
  "startsWith s p = (take (length p) s = p)"

definition is_digit :: "char \<Rightarrow> bool" where
  "is_digit c = (48 \<le> (of_char c :: nat) \<and> (of_char c :: nat) \<le> 57)"

definition digit_val :: "char \<Rightarrow> nat" where
  "digit_val c = of_char c - 48"

definition digits_val :: "nat \<Rightarrow> string \<Rightarrow> nat" where
  "digits_val base ds = foldl (\<lambda>a c. base * a + digit_val c) 0 ds"

definition hex_val :: "char \<Rightarrow> nat option" where
  "hex_val c =
     (let n = (of_char c :: nat) in
      if 48 \<le> n \<and> n \<le> 57 then Some (n - 48)
      else if 97 \<le> n \<and> n \<le> 102 then Some (n - 87)
      else if 65 \<le> n \<and> n \<le> 70 then Some (n - 55)
      else None)"

text \<open>
  A literal in another base: \<^verbatim>\<open>0x\<close>, \<^verbatim>\<open>0o\<close> or \<^verbatim>\<open>0b\<close> was already
  removed; at least one digit, and every digit below the base.
\<close>

definition radix_literal :: "nat \<Rightarrow> string \<Rightarrow> jsnum" where
  "radix_literal base ds =
     (if ds \<noteq> [] \<and> list_all (\<lambda>c. case hex_val c of None \<Rightarrow> False | Some d \<Rightarrow> d < base) ds
      then Fin (real (foldl (\<lambda>a c. base * a + (case hex_val c of None \<Rightarrow> 0 | Some d \<Rightarrow> d)) 0 ds))
      else NaN)"

text \<open>The exponent part: nothing, or \<^verbatim>\<open>e\<close>, an optional sign and digits.\<close>

definition exponent_part :: "string \<Rightarrow> int option" where
  "exponent_part r =
     (case r of
        [] \<Rightarrow> Some 0
      | c # r' \<Rightarrow>
          if c = CHR ''e'' \<or> c = CHR ''E'' then
            (let neg = (r' \<noteq> [] \<and> hd r' = CHR ''-'');
                 ds = (if r' \<noteq> [] \<and> (hd r' = CHR ''-'' \<or> hd r' = CHR ''+'') then tl r' else r')
             in if ds \<noteq> [] \<and> list_all is_digit ds
                then Some (if neg then - int (digits_val 10 ds) else int (digits_val 10 ds))
                else None)
          else None)"

definition scale10 :: "real \<Rightarrow> int \<Rightarrow> real" where
  "scale10 x e = (if 0 \<le> e then x * 10 ^ nat e else x / 10 ^ nat (- e))"

text \<open>
  An unsigned decimal literal: \<^verbatim>\<open>Infinity\<close>, or digits with an optional fraction
  and exponent, at least one digit before or after the point.
\<close>

definition unsigned_decimal :: "string \<Rightarrow> jsnum" where
  "unsigned_decimal u =
     (if u = ''Infinity'' then PosInf
      else
        let ip = takeWhile is_digit u;
            r1 = dropWhile is_digit u;
            dot = (r1 \<noteq> [] \<and> hd r1 = CHR ''.'');
            fp = (if dot then takeWhile is_digit (tl r1) else []);
            r2 = (if dot then dropWhile is_digit (tl r1) else r1)
        in if ip = [] \<and> fp = [] then NaN
           else case exponent_part r2 of
                  None \<Rightarrow> NaN
                | Some e \<Rightarrow>
                    Fin (scale10 (real (digits_val 10 ip)
                                  + real (digits_val 10 fp) / 10 ^ length fp) e))"

definition negate :: "jsnum \<Rightarrow> jsnum" where
  "negate n = (case n of NaN \<Rightarrow> NaN | NegInf \<Rightarrow> PosInf | PosInf \<Rightarrow> NegInf | Fin x \<Rightarrow> Fin (- x))"

text \<open>
  The conversion of a string to a number (\<^verbatim>\<open>Number(s)\<close>): surrounding white space is
  dropped, the empty string is 0, and anything that is not a numeric literal is NaN.
\<close>

definition StringToNumber :: "string \<Rightarrow> jsnum" where
  "StringToNumber s =
     (let t = js_trim s in
      if t = [] then Fin 0
      else if take 2 t = ''0x'' \<or> take 2 t = ''0X'' then radix_literal 16 (drop 2 t)
      else if take 2 t = ''0o'' \<or> take 2 t = ''0O'' then radix_literal 8 (drop 2 t)
      else if take 2 t = ''0b'' \<or> take 2 t = ''0B'' then radix_literal 2 (drop 2 t)
      else if hd t = CHR ''+'' then unsigned_decimal (tl t)
      else if hd t = CHR ''-'' then negate (unsigned_decimal (tl t))
      else unsigned_decimal t)"

subsection \<open>Objects\<close>

definition has_key :: "(string \<times> jsval) list \<Rightarrow> string \<Rightarrow> bool" where
  "has_key kvs k = (k \<in> set (map fst kvs))"

text \<open>The value of an own property: the last member written under the key.\<close>

definition obj_get :: "(string \<times> jsval) list \<Rightarrow> string \<Rightarrow> jsval option" where
  "obj_get kvs k = map_of (rev kvs) k"

text \<open>
  \<^verbatim>\<open>v.k\<close> for a key that no prototype defines (\<^verbatim>\<open>score\<close>, \<^verbatim>\<open>topFixes\<close>,
  \<^verbatim>\<open>narrative\<close>, \<^verbatim>\<open>laws\<close>, \<^verbatim>\<open>imageDataUrl\<close>, \<^verbatim>\<open>severity\<close>,
  \<^verbatim>\<open>title\<close>, \<^verbatim>\<open>finding\<close>, \<^verbatim>\<open>error\<close>, \<^verbatim>\<open>reportId\<close>):
  reading it off \<^verbatim>\<open>null\<close> or \<^verbatim>\<open>undefined\<close> throws a TypeError, a primitive
  or an array has no such property.
\<close>

definition cannot_read :: "string \<Rightarrow> string \<Rightarrow> exn" where
  "cannot_read what k =
     Exn (''Cannot read properties of '' @ what @ '' (reading '' @ [CHR 0x27] @ k @ [CHR 0x27] @ '')'')"

fun get_prop :: "jsval \<Rightarrow> string \<Rightarrow> exn + jsval" where
  "get_prop JUndefined k = Inl (cannot_read ''undefined'' k)"
| "get_prop JNull k = Inl (cannot_read ''null'' k)"
| "get_prop (JObject kvs) k = Inr (case obj_get kvs k of None \<Rightarrow> JUndefined | Some v \<Rightarrow> v)"
| "get_prop _ k = Inr JUndefined"

text \<open>\<^verbatim>\<open>v?.k\<close>: \<^verbatim>\<open>undefined\<close> when \<open>v\<close> is \<^verbatim>\<open>null\<close> or \<^verbatim>\<open>undefined\<close>.\<close>

definition optional_prop :: "jsval \<Rightarrow> string \<Rightarrow> jsval" where
  "optional_prop v k =
     (if v = JNull \<or> v = JUndefined then JUndefined
      else case get_prop v k of Inl _ \<Rightarrow> JUndefined | Inr x \<Rightarrow> x)"

text \<open>Truthiness, as \<^verbatim>\<open>!v\<close>, \<^verbatim>\<open>&&\<close> and \<^verbatim>\<open>||\<close> test it.\<close>

fun truthy :: "jsval \<Rightarrow> bool" where
  "truthy JUndefined = False"
| "truthy JNull = False"
| "truthy (JBool b) = b"
| "truthy (JNumber n) = (n \<noteq> NaN \<and> n \<noteq> Fin 0)"
| "truthy (JString s) = (s \<noteq> [])"
| "truthy (JArray _) = True"
| "truthy (JObject _) = True"

text \<open>
  Converting an object to a primitive calls its \<^verbatim>\<open>toString\<close>. A parsed object
  inherits one unless it has a member of that name, which cannot be a function: then
  the conversion throws a TypeError. An array joins the strings of its elements.
\<close>

fun unprintable :: "jsval \<Rightarrow> bool" where
  "unprintable (JObject kvs) = has_key kvs ''toString''"
| "unprintable (JArray xs) = list_ex unprintable xs"
| "unprintable _ = False"

text \<open>
  \<^verbatim>\<open>Number(v)\<close> for a value whose conversion does not throw. An array converts
  through its string: the empty array gives the empty string, one element gives that
  element's string (empty for \<^verbatim>\<open>null\<close>), and two or more elements give a string
  with a comma, which is no numeric literal. The string of a number reads back as that
  number.
\<close>

fun to_number :: "jsval \<Rightarrow> jsnum" where
  "to_number JUndefined = NaN"
| "to_number JNull = Fin 0"
| "to_number (JBool b) = Fin (if b then 1 else 0)"
| "to_number (JNumber n) = n"
| "to_number (JString s) = StringToNumber s"
| "to_number (JObject kvs) = NaN"
| "to_number (JArray []) = Fin 0"
| "to_number (JArray [JUndefined]) = Fin 0"
| "to_number (JArray [JNull]) = Fin 0"
| "to_number (JArray [JBool b]) = NaN"
| "to_number (JArray [x]) = to_number x"
| "to_number (JArray (x # y # zs)) = NaN"

definition Number :: "jsval \<Rightarrow> exn + jsnum" where
  "Number v =
     (if unprintable v then Inl (Exn ''Cannot convert object to primitive value'')
      else Inr (to_number v))"

subsection \<open>Property order, spread and entries\<close>

text \<open>
  An object lists its array-index keys first, in ascending order, and then its other
  keys in the order they were created. An array index is the canonical decimal string
  of a number below \<open>2\<^sup>3\<^sup>2 - 1\<close>.
\<close>

definition is_array_index :: "string \<Rightarrow> bool" where
  "is_array_index k =
     (k \<noteq> [] \<and> list_all is_digit k \<and> (k = ''0'' \<or> hd k \<noteq> CHR ''0'')
      \<and> digits_val 10 k < 2 ^ 32 - 1)"

fun insert_index :: "nat \<Rightarrow> string \<Rightarrow> jsval \<Rightarrow> (string \<times> jsval) list \<Rightarrow> (string \<times> jsval) list" where
  "insert_index n k v [] = [(k, v)]"
| "insert_index n k v ((k', v') # kvs) =
     (if is_array_index k' \<and> digits_val 10 k' < n then (k', v') # insert_index n k v kvs
      else (k, v) # (k', v') # kvs)"

text \<open>
  Defining the property \<open>k\<close> with value \<open>v\<close>: an existing property keeps its place and
  takes the new value, a new one goes to its place in the order.
\<close>

definition obj_set :: "(string \<times> jsval) list \<Rightarrow> string \<Rightarrow> jsval \<Rightarrow> (string \<times> jsval) list" where
  "obj_set kvs k v =
     (if has_key kvs k then map (\<lambda>(k', v'). if k' = k then (k', v) else (k', v')) kvs
      else if is_array_index k then insert_index (digits_val 10 k) k v kvs
      else kvs @ [(k, v)])"

definition define_all :: "(string \<times> jsval) list \<Rightarrow> (string \<times> jsval) list \<Rightarrow> (string \<times> jsval) list" where
  "define_all es kvs = fold (\<lambda>(k, v) acc. obj_set acc k v) es kvs"

function nat_to_string :: "nat \<Rightarrow> string" where
  "nat_to_string n =
     (if n < 10 then [''0123456789'' ! n]
      else nat_to_string (n div 10) @ [''0123456789'' ! (n mod 10)])"
  by pat_completeness auto
termination
  by (relation "measure id") auto

declare nat_to_string.simps [simp del]

text \<open>
  The own enumerable properties, as \<^verbatim>\<open>Object.entries\<close> lists them and as a spread
  \<^verbatim>\<open>{...v}\<close> copies them: the members of an object, the elements of an array under
  their indices, the code units of a string under theirs, and nothing for another
  primitive. (\<^verbatim>\<open>Object.entries\<close> throws on \<^verbatim>\<open>null\<close> and \<^verbatim>\<open>undefined\<close>;
  the code never passes one.)
\<close>

fun own_entries :: "jsval \<Rightarrow> (string \<times> jsval) list" where
  "own_entries (JObject kvs) = define_all kvs []"
| "own_entries (JArray xs) = zip (map nat_to_string [0..<length xs]) xs"
| "own_entries (JString s) = zip (map nat_to_string [0..<length s]) (map (\<lambda>c. JString [c]) s)"
| "own_entries _ = []"

section \<open>The report store\<close>

text \<open>
  The columns of the \<^verbatim>\<open>Report\<close> table, as the migration declares them. The record
  is used twice: for the data the endpoint hands to the store, where the score is the
  number the endpoint computed, and for a stored row, where the score is an integer
  (\<^verbatim>\<open>"score" INTEGER NOT NULL\<close>). The two JSON columns hold values.
\<close>

record 'n report =
  id' :: string
  createdAt :: nat
  imageDataUrl :: string
  goal :: string
  navItems :: int
  ctaCount :: int
  formFields :: int
  score :: 'n
  topFixes :: jsval
  laws :: jsval

type_synonym store = "int report list"

text \<open>
  Modelled from the spec: the storage client (\<^verbatim>\<open>@/lib/prisma\<close>) is not among the
  sources. The score of a row is an integer: the store holds the integer part of a
  finite number (72 for 72.5) and refuses a score that is no number (NaN) or infinite.
\<close>

definition integer_part :: "real \<Rightarrow> int" where
  "integer_part x = (if 0 \<le> x then \<lfloor>x\<rfloor> else \<lceil>x\<rceil>)"

text \<open>
  Modelled from the spec: what the integer column of the same storage client holds for
  a score it is handed, if it can hold it.
\<close>

definition integer_column :: "jsnum \<Rightarrow> int option" where
  "integer_column n = (case n of Fin x \<Rightarrow> Some (integer_part x) | _ \<Rightarrow> None)"

text \<open>
  Modelled from the spec: of the same storage client, the row held for the data the
  store was handed: every column as given, the score as the integer column holds it.
\<close>

definition stored_row :: "jsnum report \<Rightarrow> int \<Rightarrow> int report" where
  "stored_row d n =
     \<lparr>id' = id' d, createdAt = createdAt d, imageDataUrl = imageDataUrl d, goal = goal d,
      navItems = navItems d, ctaCount = ctaCount d, formFields = formFields d, score = n,
      topFixes = topFixes d, laws = laws d\<rparr>"

text \<open>
  Modelled from the spec: of the same storage client. The store holds one row per
  analysis; the identifier is generated at creation, unique and the primary key; a row,
  once created, is never updated or deleted.
  \<^verbatim>\<open>prisma.report.create({ data })\<close> refuses data whose score the integer column
  cannot hold, and otherwise adds the row under the identifier the store generated for
  it; an identifier already in use violates the primary key. A refused write throws and
  adds nothing.
\<close>

definition report_create :: "store \<Rightarrow> jsnum report \<Rightarrow> exn + (int report \<times> store)" where
  "report_create st d =
     (case integer_column (score d) of
        None \<Rightarrow> Inl (Exn ''Invalid value provided for the field score: expected an integer'')
      | Some n \<Rightarrow>
          if id' d \<in> set (map id' st)
          then Inl (Exn ''Unique constraint failed on the fields: (id)'')
          else Inr (stored_row d n, st @ [stored_row d n]))"

text \<open>
  Modelled from the spec: of the same storage client,
  \<^verbatim>\<open>prisma.report.findUnique({ where: { id } })\<close> gives the row with that
  identifier, or \<^verbatim>\<open>null\<close> when there is none.
\<close>

definition findUnique :: "store \<Rightarrow> string \<Rightarrow> int report option" where
  "findUnique st i = find (\<lambda>r. id' r = i) st"

section \<open>AnalysisEndpoint\<close>

definition MAX_IMAGE_DATAURL_CHARS :: nat where
  "MAX_IMAGE_DATAURL_CHARS = 2000000"

text \<open>\<^verbatim>\<open>const score = clamp(Number(parsed.score ?? 0), 0, 100);\<close>\<close>

definition sanitize_score :: "jsval \<Rightarrow> exn + jsnum" where
  "sanitize_score parsed =
     (case get_prop parsed ''score'' of
        Inl e \<Rightarrow> Inl e
      | Inr s \<Rightarrow>
          (case Number (if s = JUndefined \<or> s = JNull then JNumber (Fin 0) else s) of
             Inl e \<Rightarrow> Inl e
           | Inr n \<Rightarrow> Inr (clamp n (Fin 0) (Fin 100))))"

text \<open>\<^verbatim>\<open>Array.isArray(parsed.topFixes) ? parsed.topFixes.slice(0, 3) : []\<close>\<close>

definition sanitize_topFixes :: "jsval \<Rightarrow> exn + jsval list" where
  "sanitize_topFixes parsed =
     (case get_prop parsed ''topFixes'' of
        Inl e \<Rightarrow> Inl e
      | Inr (JArray xs) \<Rightarrow> Inr (take 3 xs)
      | Inr _ \<Rightarrow> Inr [])"

text \<open>\<^verbatim>\<open>typeof parsed.narrative === "string" ? parsed.narrative.slice(0, 1500) : ""\<close>\<close>

definition sanitize_narrative :: "jsval \<Rightarrow> exn + string" where
  "sanitize_narrative parsed =
     (case get_prop parsed ''narrative'' of
        Inl e \<Rightarrow> Inl e
      | Inr (JString s) \<Rightarrow> Inr (take 1500 s)
      | Inr _ \<Rightarrow> Inr [])"

text \<open>
  \<^verbatim>\<open>parsed.laws && typeof parsed.laws === "object" ? parsed.laws : {}\<close>: a truthy
  value whose \<^verbatim>\<open>typeof\<close> is \<^verbatim>\<open>"object"\<close> is an object or an array.
\<close>

definition sanitize_laws :: "jsval \<Rightarrow> exn + jsval" where
  "sanitize_laws parsed =
     (case get_prop parsed ''laws'' of
        Inl e \<Rightarrow> Inl e
      | Inr (JObject kvs) \<Rightarrow> Inr (JObject kvs)
      | Inr (JArray xs) \<Rightarrow> Inr (JArray xs)
      | Inr _ \<Rightarrow> Inr (JObject []))"

text \<open>
  \<^verbatim>\<open>const lawsToStore = { narrative, ...laws };\<close>: the property \<^verbatim>\<open>narrative\<close>
  is created first, then every own property of \<^verbatim>\<open>laws\<close> is defined on the new
  object, in order.
\<close>

definition lawsToStore :: "string \<Rightarrow> jsval \<Rightarrow> (string \<times> jsval) list" where
  "lawsToStore narrative lws = define_all (own_entries lws) [(''narrative'', JString narrative)]"

text \<open>What one request meets: the configuration, the body, the model and the store's clock and identifier.\<close>

record env =
  OPENAI_API_KEY :: "string option"
  req_json :: "exn + jsval"
  model_content :: "exn + string option"
  new_id :: string
  now :: nat

record response =
  status :: nat
  body :: jsval

definition error_response :: "string \<Rightarrow> nat \<Rightarrow> response" where
  "error_response msg st = \<lparr>status = st, body = JObject [(''error'', JString msg)]\<rparr>"

text \<open>
  The \<^verbatim>\<open>try\<close> block of \<^verbatim>\<open>POST\<close>, in three parts; \<open>Inl\<close> is an exception that
  reaches the \<^verbatim>\<open>catch\<close>. Its last part: the four fields are sanitized in source
  order and the row is created.
\<close>

definition persist :: "env \<Rightarrow> store \<Rightarrow> string \<Rightarrow> jsval \<Rightarrow> exn + (response \<times> store)" where
  "persist ev st url parsed =
     (case sanitize_score parsed of Inl e \<Rightarrow> Inl e | Inr sc \<Rightarrow>
      case sanitize_topFixes parsed of Inl e \<Rightarrow> Inl e | Inr fixes \<Rightarrow>
      case sanitize_narrative parsed of Inl e \<Rightarrow> Inl e | Inr narrative \<Rightarrow>
      case sanitize_laws parsed of Inl e \<Rightarrow> Inl e | Inr lws \<Rightarrow>
      case report_create st
             \<lparr>id' = new_id ev, createdAt = now ev, imageDataUrl = url, goal = [],
              navItems = 0, ctaCount = 0, formFields = 0,
              score = sc, topFixes = JArray fixes,
              laws = JObject (lawsToStore narrative lws)\<rparr> of
        Inl e \<Rightarrow> Inl e
      | Inr (row, st') \<Rightarrow>
          Inr (\<lparr>status = 200, body = JObject [(''reportId'', JString (id' row))]\<rparr>, st'))"

text \<open>
  Its middle part: the reply of the model,
  \<^verbatim>\<open>completion.choices?.[0]?.message?.content?.trim()\<close>, the check that it is not
  empty, and \<^verbatim>\<open>JSON.parse\<close>. The parser is a parameter; \<open>None\<close> stands for its
  SyntaxError.
\<close>

definition ask_model :: "(string \<Rightarrow> jsval option) \<Rightarrow> env \<Rightarrow> store \<Rightarrow> string \<Rightarrow> exn + (response \<times> store)" where
  "ask_model JSON_parse ev st url =
     (case model_content ev of
        Inl e \<Rightarrow> Inl e
      | Inr content \<Rightarrow>
          (case map_option js_trim content of
             None \<Rightarrow> Inr (error_response ''Model returned empty response'' 500, st)
           | Some raw \<Rightarrow>
               if raw = [] then Inr (error_response ''Model returned empty response'' 500, st)
               else
                 (case JSON_parse raw of
                    None \<Rightarrow>
                      Inr (\<lparr>status = 500,
                            body = JObject [(''error'', JString ''Model did not return valid JSON''),
                                            (''raw'', JString raw)]\<rparr>, st)
                  | Some parsed \<Rightarrow> persist ev st url parsed)))"

text \<open>Its first part: the API key, the body of the request and the two checks of \<^verbatim>\<open>imageDataUrl\<close>.\<close>

definition try_POST :: "(string \<Rightarrow> jsval option) \<Rightarrow> env \<Rightarrow> store \<Rightarrow> exn + (response \<times> store)" where
  "try_POST JSON_parse ev st =
     (if OPENAI_API_KEY ev = None \<or> OPENAI_API_KEY ev = Some []
      then Inr (error_response ''Missing OPENAI_API_KEY in .env'' 500, st)
      else
        case req_json ev of
          Inl e \<Rightarrow> Inl e
        | Inr payload \<Rightarrow>
            (let url = optional_prop payload ''imageDataUrl'' in
             if \<not> truthy url
             then Inr (error_response ''Missing screenshot upload (imageDataUrl)'' 400, st)
             else
               (case url of
                  JString s \<Rightarrow>
                    if \<not> startsWith s ''data:image/''
                    then Inr (error_response ''Missing screenshot upload (imageDataUrl)'' 400, st)
                    else if length s > MAX_IMAGE_DATAURL_CHARS
                    then Inr (error_response
                                ''Screenshot is too large. Upload a smaller image (or compress it) and try again.''
                                413, st)
                    else ask_model JSON_parse ev st s
                | _ \<Rightarrow> Inl (Exn ''body.imageDataUrl.startsWith is not a function''))))"

text \<open>
  \<^verbatim>\<open>POST\<close>: the \<^verbatim>\<open>catch\<close> turns every exception into a 500 response that carries
  \<^verbatim>\<open>err?.message || "Internal server error"\<close>. The only write is the last step of
  the \<^verbatim>\<open>try\<close> block, so an exception leaves the store as it was.
\<close>

definition POST :: "(string \<Rightarrow> jsval option) \<Rightarrow> env \<Rightarrow> store \<Rightarrow> response \<times> store" where
  "POST JSON_parse ev st =
     (case try_POST JSON_parse ev st of
        Inr r \<Rightarrow> r
      | Inl e \<Rightarrow>
          (error_response (if message e = [] then ''Internal server error'' else message e) 500, st))"

section \<open>ReportRenderer\<close>

record style =
  borderColor :: string
  background :: string
  color :: string

text \<open>
  \<^verbatim>\<open>severityStyle\<close> of the results page: a \<^verbatim>\<open>switch\<close> with the cases
  \<^verbatim>\<open>"High"\<close>, \<^verbatim>\<open>"Medium"\<close> and \<^verbatim>\<open>"Low"\<close> together with
  \<^verbatim>\<open>default\<close>. The argument is \<^verbatim>\<open>item.severity\<close> of a stored finding, any
  value at run time; \<^verbatim>\<open>switch\<close> compares with \<^verbatim>\<open>===\<close>.
\<close>

definition severityStyle :: "jsval \<Rightarrow> style" where
  "severityStyle sev =
     (if sev = JString ''High''
      then \<lparr>borderColor = ''#ff6b6b'', background = ''#2a1a1a'', color = ''#ff8a8a''\<rparr>
      else if sev = JString ''Medium''
      then \<lparr>borderColor = ''#ffd93d'', background = ''#2a2515'', color = ''#ffed4e''\<rparr>
      else \<lparr>borderColor = ''#666'', background = ''#1a1a1a'', color = ''#b0b0b0''\<rparr>)"

text \<open>The copy of the same function in \<^verbatim>\<open>DraggableBottomSheet.tsx\<close>.\<close>

definition severityStyle_sheet :: "jsval \<Rightarrow> style" where
  "severityStyle_sheet sev =
     (if sev = JString ''High''
      then \<lparr>borderColor = ''#ff6b6b'', background = ''#2a1a1a'', color = ''#ff8a8a''\<rparr>
      else if sev = JString ''Medium''
      then \<lparr>borderColor = ''#ffd93d'', background = ''#2a2515'', color = ''#ffed4e''\<rparr>
      else \<lparr>borderColor = ''#666'', background = ''#1a1a1a'', color = ''#b0b0b0''\<rparr>)"

text \<open>
  What the page hands to its markup. The items of the top-fix list are the stored
  entries, or the single placeholder line \<^verbatim>\<open>No major issues detected.\<close>
\<close>

datatype fix_item = Fix jsval | NoIssues

record law_card =
  card_key :: string
  card_title :: jsval
  card_tag :: style
  card_severity :: jsval
  card_finding :: jsval

datatype view =
    NotFound
  | Report (shown_image: string) (shown_score: int) (shown_narrative: string)
           (shown_fixes: "fix_item list") (shown_cards: "law_card list")

text \<open>\<^verbatim>\<open>v ?? d\<close>\<close>

definition nullish_or :: "jsval \<Rightarrow> jsval \<Rightarrow> jsval" where
  "nullish_or v d = (if v = JUndefined \<or> v = JNull then d else v)"

text \<open>
  \<^verbatim>\<open>topFixes.length ? topFixes.map(...) : placeholder\<close>. On a value that is not an
  array, \<^verbatim>\<open>.map\<close> is not a function: a non-empty string, or an object with a truthy
  \<^verbatim>\<open>length\<close> member, throws; any other value has no truthy \<^verbatim>\<open>length\<close>.
\<close>

definition not_a_function :: "string \<Rightarrow> exn" where
  "not_a_function what = Exn (what @ '' is not a function'')"

fun top_fix_items :: "jsval \<Rightarrow> exn + fix_item list" where
  "top_fix_items (JArray xs) = Inr (if xs \<noteq> [] then map Fix xs else [NoIssues])"
| "top_fix_items (JString s) = (if s \<noteq> [] then Inl (not_a_function ''topFixes.map'') else Inr [NoIssues])"
| "top_fix_items (JObject kvs) =
     (case obj_get kvs ''length'' of
        None \<Rightarrow> Inr [NoIssues]
      | Some n \<Rightarrow> if truthy n then Inl (not_a_function ''topFixes.map'') else Inr [NoIssues])"
| "top_fix_items _ = Inr [NoIssues]"

text \<open>
  \<^verbatim>\<open>const lawEntries = Object.entries(lawsAll).filter(([key]) => key !== "narrative");\<close>
  \<^verbatim>\<open>const laws = Object.fromEntries(lawEntries)\<close>, and then the entries of
  \<^verbatim>\<open>laws\<close> again.
\<close>

definition law_entries :: "jsval \<Rightarrow> (string \<times> jsval) list" where
  "law_entries lawsAll =
     define_all (filter (\<lambda>(k, v). k \<noteq> ''narrative'') (own_entries lawsAll)) []"

text \<open>One card: \<^verbatim>\<open>item.severity\<close>, \<^verbatim>\<open>item.title\<close> and \<^verbatim>\<open>item.finding\<close> are read off the entry.\<close>

definition law_card_of :: "string \<times> jsval \<Rightarrow> exn + law_card" where
  "law_card_of e =
     (case get_prop (snd e) ''severity'' of Inl x \<Rightarrow> Inl x | Inr sev \<Rightarrow>
      case get_prop (snd e) ''title'' of Inl x \<Rightarrow> Inl x | Inr ttl \<Rightarrow>
      case get_prop (snd e) ''finding'' of Inl x \<Rightarrow> Inl x | Inr fnd \<Rightarrow>
        Inr \<lparr>card_key = fst e, card_title = ttl, card_tag = severityStyle sev,
             card_severity = sev, card_finding = fnd\<rparr>)"

text \<open>\<^verbatim>\<open>.map\<close> over the entries; the first exception ends it.\<close>

fun map_cards :: "(string \<times> jsval) list \<Rightarrow> exn + law_card list" where
  "map_cards [] = Inr []"
| "map_cards (e # es) =
     (case law_card_of e of
        Inl x \<Rightarrow> Inl x
      | Inr c \<Rightarrow> (case map_cards es of Inl x \<Rightarrow> Inl x | Inr cs \<Rightarrow> Inr (c # cs)))"

definition shown_narrative_of :: "jsval \<Rightarrow> string" where
  "shown_narrative_of lawsAll =
     (case get_prop lawsAll ''narrative'' of Inr (JString s) \<Rightarrow> s | _ \<Rightarrow> [])"

text \<open>
  \<^verbatim>\<open>ResultsPage\<close>: the JSX is one expression, evaluated in source order (the score
  and narrative card, the top fixes, then the law cards limited by
  \<^verbatim>\<open>.slice(0, 3)\<close>); an exception in any part is thrown by the page.
\<close>

definition render_report :: "int report \<Rightarrow> exn + view" where
  "render_report r =
     (let fixes = nullish_or (topFixes r) (JArray []);
          lawsAll = nullish_or (laws r) (JObject [])
      in case top_fix_items fixes of
           Inl x \<Rightarrow> Inl x
         | Inr items \<Rightarrow>
             (case map_cards (take 3 (law_entries lawsAll)) of
                Inl x \<Rightarrow> Inl x
              | Inr cs \<Rightarrow>
                  Inr (Report (imageDataUrl r) (score r) (shown_narrative_of lawsAll) items cs)))"

definition ResultsPage :: "store \<Rightarrow> string \<Rightarrow> exn + view" where
  "ResultsPage st i =
     (case findUnique st i of
        None \<Rightarrow> Inr NotFound
      | Some r \<Rightarrow> render_report r)"

section \<open>ImageNormalizer\<close>

text \<open>
  The resize step of \<^verbatim>\<open>handleImageUpload\<close>, the same lines in the three components:
  \<^verbatim>\<open>const scale = Math.min(1, MAX_W / img.width);\<close>
  \<^verbatim>\<open>const w = Math.round(img.width * scale); const h = Math.round(img.height * scale);\<close>
  The natural width and height of a decoded image are non-negative integers (an
  \<^verbatim>\<open>unsigned long\<close>, so below \<open>2\<^sup>3\<^sup>2\<close>). Each
  division and multiplication is rounded to a double; the rounding is the parameter
  \<open>fl\<close>, the identity for exact arithmetic. A width of 0 makes the quotient
  \<^verbatim>\<open>Infinity\<close>, of which 1 is the smaller. \<^verbatim>\<open>Math.round\<close> is exact: the nearest
  integer, a tie going up.
\<close>

definition MAX_W :: real where
  "MAX_W = 1200"

definition Math_round :: "real \<Rightarrow> int" where
  "Math_round x = \<lfloor>x + 1 / 2\<rfloor>"

definition scale :: "(real \<Rightarrow> real) \<Rightarrow> nat \<Rightarrow> real" where
  "scale fl width = (if width = 0 then 1 else min 1 (fl (MAX_W / real width)))"


definition canvas_height :: "(real \<Rightarrow> real) \<Rightarrow> nat \<Rightarrow> nat \<Rightarrow> int" where
  "canvas_height fl width height = Math_round (fl (real height * scale fl width))"


section \<open>AnalysisRequestSubmitter\<close>

text \<open>
  The state of one component, and what \<^verbatim>\<open>fetch\<close> met: a transport failure, or a
  response with its \<^verbatim>\<open>ok\<close> flag and the outcome of \<^verbatim>\<open>res.json()\<close>.
  \<open>navigated\<close> holds the \<^verbatim>\<open>reportId\<close> of the results page the component went to,
  \<open>alerted\<close> the last \<^verbatim>\<open>alert\<close>.
\<close>

record ui =
  imagePreview :: "string option"
  isRunning :: bool
  error :: jsval
  navigated :: "jsval option"
  alerted :: "jsval option"

datatype fetched = Failed exn | Replied bool "exn + jsval"

text \<open>\<^verbatim>\<open>err?.message || d\<close>\<close>

definition message_or :: "exn \<Rightarrow> string \<Rightarrow> jsval" where
  "message_or e d = JString (if message e = [] then d else message e)"

text \<open>\<^verbatim>\<open>data?.error || "Analysis failed"\<close>\<close>

definition error_of :: "jsval \<Rightarrow> jsval" where
  "error_of data =
     (let v = optional_prop data ''error'' in if truthy v then v else JString ''Analysis failed'')"

text \<open>
  The template literal with \<^verbatim>\<open>data.reportId\<close>: reading the property off
  \<^verbatim>\<open>null\<close> throws, and so does the string conversion of an object that cannot be
  printed.
\<close>

definition results_target :: "jsval \<Rightarrow> exn + jsval" where
  "results_target data =
     (case get_prop data ''reportId'' of
        Inl e \<Rightarrow> Inl e
      | Inr v \<Rightarrow> if unprintable v then Inl (Exn ''Cannot convert object to primitive value'') else Inr v)"

text \<open>
  \<^verbatim>\<open>runAnalysis\<close> of the analyze page: \<^verbatim>\<open>try\<close>, \<^verbatim>\<open>catch\<close> and a
  \<^verbatim>\<open>finally\<close> that clears the flag.
\<close>

definition runAnalysis_AnalyzePage :: "fetched \<Rightarrow> ui \<Rightarrow> ui" where
  "runAnalysis_AnalyzePage f u =
     (if imagePreview u = None \<or> imagePreview u = Some [] \<or> isRunning u then u
      else
        let u1 = u\<lparr>error := JNull, isRunning := True\<rparr>;
            u2 = (case f of
                    Failed e \<Rightarrow> u1\<lparr>error := message_or e ''Network error''\<rparr>
                  | Replied ok (Inl e) \<Rightarrow> u1\<lparr>error := message_or e ''Network error''\<rparr>
                  | Replied ok (Inr data) \<Rightarrow>
                      if \<not> ok then u1\<lparr>error := error_of data\<rparr>
                      else (case results_target data of
                              Inl e \<Rightarrow> u1\<lparr>error := message_or e ''Network error''\<rparr>
                            | Inr t \<Rightarrow> u1\<lparr>navigated := Some t\<rparr>))
        in u2\<lparr>isRunning := False\<rparr>)"

text \<open>
  The effect of the home page, run when \<^verbatim>\<open>imagePreview\<close> changes: the same request,
  with \<^verbatim>\<open>setIsRunning(false)\<close> written in the non-success branch and in the
  \<^verbatim>\<open>catch\<close>, and no \<^verbatim>\<open>finally\<close>.
\<close>

definition analyze_HomePage :: "fetched \<Rightarrow> ui \<Rightarrow> ui" where
  "analyze_HomePage f u =
     (if imagePreview u = None \<or> imagePreview u = Some [] \<or> isRunning u then u
      else
        let u1 = u\<lparr>error := JNull, isRunning := True\<rparr>
        in case f of
             Failed e \<Rightarrow> u1\<lparr>error := message_or e ''Network error'', isRunning := False\<rparr>
           | Replied ok (Inl e) \<Rightarrow> u1\<lparr>error := message_or e ''Network error'', isRunning := False\<rparr>
           | Replied ok (Inr data) \<Rightarrow>
               if \<not> ok then u1\<lparr>error := error_of data, isRunning := False\<rparr>
               else (case results_target data of
                       Inl e \<Rightarrow> u1\<lparr>error := message_or e ''Network error'', isRunning := False\<rparr>
                     | Inr t \<Rightarrow> u1\<lparr>navigated := Some t\<rparr>))"

text \<open>
  \<^verbatim>\<open>runAnalysis\<close> of the upload button on the results page: no guard, failures go
  to \<^verbatim>\<open>alert\<close>, success to \<^verbatim>\<open>router.push\<close>.
\<close>

definition runAnalysis_UploadButton :: "fetched \<Rightarrow> ui \<Rightarrow> ui" where
  "runAnalysis_UploadButton f u =
     (let u1 = u\<lparr>isRunning := True\<rparr>
      in case f of
           Failed e \<Rightarrow> u1\<lparr>alerted := Some (message_or e ''Network error''), isRunning := False\<rparr>
         | Replied ok (Inl e) \<Rightarrow> u1\<lparr>alerted := Some (message_or e ''Network error''), isRunning := False\<rparr>
         | Replied ok (Inr data) \<Rightarrow>
             if \<not> ok then u1\<lparr>alerted := Some (error_of data), isRunning := False\<rparr>
             else (case results_target data of
                     Inl e \<Rightarrow> u1\<lparr>alerted := Some (message_or e ''Network error''), isRunning := False\<rparr>
                   | Inr t \<Rightarrow> u1\<lparr>navigated := Some t\<rparr>))"

section \<open>Properties of objects\<close>

text \<open>
  Reading a property sees the member written last, and defining a property changes
  that property and no other, wherever the new member is placed in the order.
\<close>

lemma obj_get_Cons: "obj_get (e # kvs) k = (case obj_get kvs k of Some v \<Rightarrow> Some v | None \<Rightarrow> if k = fst e then Some (snd e) else None)"
  by (cases e) (auto simp: obj_get_def map_add_def split: option.splits)

lemma obj_get_Nil: "obj_get [] k = None"
  by (simp add: obj_get_def)

lemma obj_get_append: "obj_get (xs @ ys) k = (case obj_get ys k of Some v \<Rightarrow> Some v | None \<Rightarrow> obj_get xs k)"
  by (simp add: obj_get_def map_add_def split: option.splits)

lemma obj_get_None_iff: "obj_get kvs k = None \<longleftrightarrow> \<not> has_key kvs k"
  by (simp add: obj_get_def has_key_def map_of_eq_None_iff)

lemma obj_get_replace:
  "obj_get (map (\<lambda>(k', v'). if k' = k then (k', v) else (k', v')) kvs) j =
     (if j = k then (if has_key kvs k then Some v else None) else obj_get kvs j)"
proof (induction kvs)
  case Nil
  then show ?case by (simp add: obj_get_Nil has_key_def)
next
  case (Cons e kvs)
  obtain a b where e: "e = (a, b)" by (cases e)
  show ?case
    using Cons.IH by (auto simp: e obj_get_Cons has_key_def split: option.splits)
qed

lemma obj_get_insert_index:
  "\<not> has_key kvs k \<Longrightarrow>
   obj_get (insert_index n k v kvs) j = (if j = k then Some v else obj_get kvs j)"
proof (induction kvs)
  case Nil
  then show ?case by (simp add: obj_get_Cons obj_get_Nil)
next
  case (Cons e kvs)
  obtain a b where e: "e = (a, b)" by (cases e)
  from Cons.prems have nk: "\<not> has_key kvs k" and "a \<noteq> k"
    by (auto simp: has_key_def e)
  moreover from nk have "obj_get kvs k = None"
    by (simp add: obj_get_None_iff)
  ultimately show ?case
    using Cons.IH by (auto simp: e obj_get_Cons split: option.splits)
qed

lemma obj_get_obj_set:
  "obj_get (obj_set kvs k v) j = (if j = k then Some v else obj_get kvs j)"
proof (cases "has_key kvs k")
  case True
  then show ?thesis by (simp add: obj_set_def obj_get_replace)
next
  case False
  then have "obj_get kvs k = None" by (simp add: obj_get_None_iff)
  then show ?thesis
    using False
    by (auto simp: obj_set_def obj_get_insert_index obj_get_append obj_get_Cons obj_get_Nil
        split: option.splits)
qed

lemma obj_get_define_all:
  "obj_get (define_all es kvs) j = (case obj_get es j of Some v \<Rightarrow> Some v | None \<Rightarrow> obj_get kvs j)"
proof (induction es arbitrary: kvs)
  case Nil
  then show ?case by (simp add: define_all_def obj_get_Nil)
next
  case (Cons e es)
  obtain a b where e: "e = (a, b)" by (cases e)
  have "define_all (e # es) kvs = define_all es (obj_set kvs a b)"
    by (simp add: define_all_def e)
  then show ?case
    using Cons.IH [of "obj_set kvs a b"]
    by (auto simp: e obj_get_obj_set obj_get_Cons split: option.splits)
qed

text \<open>The index keys of an array are distinct strings of digits.\<close>

lemma nat_to_string_nonempty: "nat_to_string n \<noteq> [] \<and> [] \<noteq> nat_to_string n"
  by (subst nat_to_string.simps, subst (2) nat_to_string.simps) simp

lemma digit_char_inj:
  assumes "a < 10" "b < 10" "''0123456789'' ! a = ''0123456789'' ! b"
  shows "a = b"
proof -
  have "distinct ''0123456789''" by simp
  with assms show ?thesis by (simp add: nth_eq_iff_index_eq)
qed

lemma nat_to_string_inj: "nat_to_string n = nat_to_string m \<Longrightarrow> n = m"
proof (induction n arbitrary: m rule: nat_to_string.induct)
  case (1 n)
  show ?case
  proof (cases "n < 10")
    case True
    with "1.prems" have m: "m < 10"
      by (subst (asm) nat_to_string.simps, subst (asm) (2) nat_to_string.simps)
         (auto simp: nat_to_string_nonempty split: if_splits)
    from "1.prems" True m have "''0123456789'' ! n = ''0123456789'' ! m"
      by (subst (asm) nat_to_string.simps, subst (asm) (2) nat_to_string.simps) simp
    with True m show ?thesis by (rule digit_char_inj)
  next
    case False
    with "1.prems" have m: "\<not> m < 10"
      by (subst (asm) nat_to_string.simps, subst (asm) (2) nat_to_string.simps)
         (auto simp: nat_to_string_nonempty split: if_splits)
    from "1.prems" False m
    have eq: "nat_to_string (n div 10) @ [''0123456789'' ! (n mod 10)]
            = nat_to_string (m div 10) @ [''0123456789'' ! (m mod 10)]"
      by (subst (asm) nat_to_string.simps, subst (asm) (2) nat_to_string.simps) simp
    then have "nat_to_string (n div 10) = nat_to_string (m div 10)"
      and d: "''0123456789'' ! (n mod 10) = ''0123456789'' ! (m mod 10)"
      by simp_all
    with "1.IH" False have "n div 10 = m div 10" by simp
    moreover have "n mod 10 = m mod 10"
      using d by (intro digit_char_inj) simp_all
    ultimately show ?thesis by (metis div_mult_mod_eq)
  qed
qed

lemma distinct_index_keys: "distinct (map nat_to_string [0..<n])"
  by (simp add: distinct_map inj_on_def nat_to_string_inj)

lemma map_of_rev_distinct:
  "distinct (map fst l) \<Longrightarrow> map_of (rev l) = map_of l"
  by (rule map_of_inject_set [THEN iffD2]) (simp_all add: rev_map [symmetric])

lemma obj_get_own_entries_JArray:
  assumes "i < length xs"
  shows "obj_get (own_entries (JArray xs)) (nat_to_string i) = Some (xs ! i)"
proof -
  let ?ks = "map nat_to_string [0..<length xs]"
  have d: "distinct (map fst (zip ?ks xs))"
    by (simp add: distinct_index_keys)
  have "map_of (zip ?ks xs) (?ks ! i) = Some (xs ! i)"
    using assms by (intro map_of_zip_nth) (simp_all add: distinct_index_keys)
  then show ?thesis
    using assms by (simp add: obj_get_def map_of_rev_distinct [OF d])
qed

lemma nat_to_string_digits: "set (nat_to_string n) \<subseteq> set ''0123456789''"
proof (induction n rule: nat_to_string.induct)
  case (1 n)
  show ?case
  proof (cases "n < 10")
    case True
    then have "''0123456789'' ! n \<in> set ''0123456789''"
      by (intro nth_mem) simp
    with True show ?thesis
      by (subst nat_to_string.simps) simp
  next
    case False
    have "''0123456789'' ! (n mod 10) \<in> set ''0123456789''"
      by (intro nth_mem) simp
    with False "1.IH" show ?thesis
      by (subst nat_to_string.simps) simp
  qed
qed

lemma array_has_no_narrative: "\<not> has_key (own_entries (JArray xs)) ''narrative''"
proof
  assume "has_key (own_entries (JArray xs)) ''narrative''"
  then have "''narrative'' \<in> set (map nat_to_string [0..<length xs])"
    by (auto simp: has_key_def dest: set_zip_leftD)
  then obtain n where "nat_to_string n = ''narrative''" by auto
  with nat_to_string_digits [of n] show False by simp
qed

section \<open>Properties of the endpoint\<close>

lemma persist_Inr:
  "sanitize_score parsed = Inr (Fin x) \<Longrightarrow> sanitize_topFixes parsed = Inr fixes \<Longrightarrow>
   sanitize_narrative parsed = Inr nar \<Longrightarrow> sanitize_laws parsed = Inr lws \<Longrightarrow>
   new_id ev \<notin> set (map id' st) \<Longrightarrow>
   persist ev st url parsed =
     Inr (\<lparr>status = 200, body = JObject [(''reportId'', JString (new_id ev))]\<rparr>,
          st @ [\<lparr>id' = new_id ev, createdAt = now ev, imageDataUrl = url, goal = [],
                 navItems = 0, ctaCount = 0, formFields = 0,
                 score = integer_part x, topFixes = JArray fixes,
                 laws = JObject (lawsToStore nar lws)\<rparr>])"
  by (simp add: persist_def report_create_def stored_row_def integer_column_def)

lemma persist_InrD:
  "persist ev st url parsed = Inr (resp, st') \<Longrightarrow>
   \<exists>x fixes nar lws.
     sanitize_score parsed = Inr (Fin x) \<and> sanitize_topFixes parsed = Inr fixes \<and>
     sanitize_narrative parsed = Inr nar \<and> sanitize_laws parsed = Inr lws \<and>
     new_id ev \<notin> set (map id' st) \<and>
     resp = \<lparr>status = 200, body = JObject [(''reportId'', JString (new_id ev))]\<rparr> \<and>
     st' = st @ [\<lparr>id' = new_id ev, createdAt = now ev, imageDataUrl = url, goal = [],
                 navItems = 0, ctaCount = 0, formFields = 0,
                 score = integer_part x, topFixes = JArray fixes,
                 laws = JObject (lawsToStore nar lws)\<rparr>]"
  by (auto simp: persist_def report_create_def stored_row_def integer_column_def Let_def
      split: sum.splits if_splits option.splits jsnum.splits)

lemma ask_model_InrD:
  "ask_model P ev st url = Inr (resp, st') \<Longrightarrow>
   (st' = st \<and> resp = error_response ''Model returned empty response'' 500 \<and>
      (model_content ev = Inr None \<or> (\<exists>c. model_content ev = Inr (Some c) \<and> js_trim c = [])))
   \<or> (\<exists>c. model_content ev = Inr (Some c) \<and> js_trim c \<noteq> [] \<and> P (js_trim c) = None \<and> st' = st \<and>
        resp = \<lparr>status = 500,
                body = JObject [(''error'', JString ''Model did not return valid JSON''),
                                (''raw'', JString (js_trim c))]\<rparr>)
   \<or> (\<exists>c parsed. model_content ev = Inr (Some c) \<and> js_trim c \<noteq> [] \<and>
        P (js_trim c) = Some parsed \<and> persist ev st url parsed = Inr (resp, st'))"
  by (auto simp: ask_model_def split: sum.splits option.splits if_splits)

lemma startsWith_nonempty: "startsWith s ''data:image/'' \<Longrightarrow> s \<noteq> []"
  by (auto simp: startsWith_def)

lemma try_POST_no_key:
  "OPENAI_API_KEY ev = None \<or> OPENAI_API_KEY ev = Some [] \<Longrightarrow>
   try_POST P ev st = Inr (error_response ''Missing OPENAI_API_KEY in .env'' 500, st)"
  by (auto simp: try_POST_def)

lemma try_POST_payload:
  "OPENAI_API_KEY ev = Some k \<Longrightarrow> k \<noteq> [] \<Longrightarrow> req_json ev = Inr payload \<Longrightarrow>
   try_POST P ev st =
     (let url = optional_prop payload ''imageDataUrl'' in
      if \<not> truthy url
      then Inr (error_response ''Missing screenshot upload (imageDataUrl)'' 400, st)
      else
        (case url of
           JString s \<Rightarrow>
             if \<not> startsWith s ''data:image/''
             then Inr (error_response ''Missing screenshot upload (imageDataUrl)'' 400, st)
             else if length s > MAX_IMAGE_DATAURL_CHARS
             then Inr (error_response
                         ''Screenshot is too large. Upload a smaller image (or compress it) and try again.''
                         413, st)
             else ask_model P ev st s
         | _ \<Rightarrow> Inl (Exn ''body.imageDataUrl.startsWith is not a function'')))"
  by (simp add: try_POST_def)

lemma try_POST_valid:
  "OPENAI_API_KEY ev = Some k \<Longrightarrow> k \<noteq> [] \<Longrightarrow> req_json ev = Inr payload \<Longrightarrow>
   optional_prop payload ''imageDataUrl'' = JString s \<Longrightarrow> startsWith s ''data:image/'' \<Longrightarrow>
   length s \<le> MAX_IMAGE_DATAURL_CHARS \<Longrightarrow>
   try_POST P ev st = ask_model P ev st s"
  by (simp add: try_POST_payload startsWith_nonempty)

lemma try_POST_InrD:
  "try_POST P ev st = Inr (resp, st') \<Longrightarrow>
   (st' = st \<and> (\<exists>msg. resp = error_response msg 500 \<or> resp = error_response msg 400 \<or> resp = error_response msg 413))
   \<or> (\<exists>k payload s. OPENAI_API_KEY ev = Some k \<and> k \<noteq> [] \<and> req_json ev = Inr payload \<and>
         optional_prop payload ''imageDataUrl'' = JString s \<and> startsWith s ''data:image/'' \<and>
         length s \<le> MAX_IMAGE_DATAURL_CHARS \<and> ask_model P ev st s = Inr (resp, st'))"
proof (cases "OPENAI_API_KEY ev = None \<or> OPENAI_API_KEY ev = Some []")
  case True
  assume "try_POST P ev st = Inr (resp, st')"
  with True show ?thesis by (auto simp: try_POST_no_key)
next
  case False
  then obtain k where k: "OPENAI_API_KEY ev = Some k" "k \<noteq> []" by auto
  assume a: "try_POST P ev st = Inr (resp, st')"
  then obtain payload where p: "req_json ev = Inr payload"
    using k by (auto simp: try_POST_def split: sum.splits)
  show ?thesis
    using a k p unfolding try_POST_payload [OF k p]
    by (auto simp: Let_def split: if_splits jsval.splits)
qed

text \<open>Every run of the endpoint either answers with an error and leaves the store alone, or went through all of validation, parsing and sanitizing and appended one row.\<close>

lemma POST_cases:
  "(snd (POST P ev st) = st \<and>
      (\<exists>msg. status (fst (POST P ev st)) \<in> {400, 413, 500} \<and>
             (body (fst (POST P ev st)) = JObject [(''error'', JString msg)] \<or>
              (\<exists>raw. body (fst (POST P ev st)) =
                       JObject [(''error'', JString msg), (''raw'', JString raw)]))))
   \<or> (\<exists>k payload s c parsed x fixes nar lws.
         OPENAI_API_KEY ev = Some k \<and> k \<noteq> [] \<and> req_json ev = Inr payload \<and>
         optional_prop payload ''imageDataUrl'' = JString s \<and> startsWith s ''data:image/'' \<and>
         length s \<le> MAX_IMAGE_DATAURL_CHARS \<and>
         model_content ev = Inr (Some c) \<and> js_trim c \<noteq> [] \<and> P (js_trim c) = Some parsed \<and>
         sanitize_score parsed = Inr (Fin x) \<and> sanitize_topFixes parsed = Inr fixes \<and>
         sanitize_narrative parsed = Inr nar \<and> sanitize_laws parsed = Inr lws \<and>
         new_id ev \<notin> set (map id' st) \<and>
         POST P ev st =
           (\<lparr>status = 200, body = JObject [(''reportId'', JString (new_id ev))]\<rparr>,
            st @ [\<lparr>id' = new_id ev, createdAt = now ev, imageDataUrl = s, goal = [],
                   navItems = 0, ctaCount = 0, formFields = 0,
                   score = integer_part x, topFixes = JArray fixes,
                   laws = JObject (lawsToStore nar lws)\<rparr>]))"
proof (cases "try_POST P ev st")
  case (Inl e)
  then show ?thesis by (simp add: POST_def error_response_def)
next
  case (Inr r)
  obtain resp st' where r: "r = (resp, st')" by (cases r)
  have post: "POST P ev st = (resp, st')" by (simp add: POST_def Inr r)
  from try_POST_InrD [OF Inr [unfolded r]]
  show ?thesis
  proof
    assume "st' = st \<and> (\<exists>msg. resp = error_response msg 500 \<or> resp = error_response msg 400 \<or> resp = error_response msg 413)"
    then show ?thesis by (auto simp: post error_response_def)
  next
    assume "\<exists>k payload s. OPENAI_API_KEY ev = Some k \<and> k \<noteq> [] \<and> req_json ev = Inr payload \<and>
         optional_prop payload ''imageDataUrl'' = JString s \<and> startsWith s ''data:image/'' \<and>
         length s \<le> MAX_IMAGE_DATAURL_CHARS \<and> ask_model P ev st s = Inr (resp, st')"
    then obtain k payload s where v: "OPENAI_API_KEY ev = Some k" "k \<noteq> []" "req_json ev = Inr payload"
         "optional_prop payload ''imageDataUrl'' = JString s" "startsWith s ''data:image/''"
         "length s \<le> MAX_IMAGE_DATAURL_CHARS" and an: "ask_model P ev st s = Inr (resp, st')"
      by blast
    from ask_model_InrD [OF an] show ?thesis
    proof (elim disjE exE conjE)
      assume "st' = st" "resp = error_response ''Model returned empty response'' 500"
      then show ?thesis by (simp add: post error_response_def)
    next
      fix c assume "st' = st" "resp = \<lparr>status = 500,
                body = JObject [(''error'', JString ''Model did not return valid JSON''),
                                (''raw'', JString (js_trim c))]\<rparr>"
      then show ?thesis by (simp add: post)
    next
      fix c assume "st' = st" "resp = error_response ''Model returned empty response'' 500"
      then show ?thesis by (simp add: post error_response_def)
    next
      fix c parsed
      assume c: "model_content ev = Inr (Some c)" "js_trim c \<noteq> []" "P (js_trim c) = Some parsed"
        and pe: "persist ev st s parsed = Inr (resp, st')"
      from persist_InrD [OF pe] v c show ?thesis
        unfolding post by blast
    qed
  qed
qed

lemma POST_row_written:
  assumes "snd (POST P ev st) \<noteq> st"
  shows "\<exists>k payload s c parsed x fixes nar lws.
         OPENAI_API_KEY ev = Some k \<and> k \<noteq> [] \<and> req_json ev = Inr payload \<and>
         optional_prop payload ''imageDataUrl'' = JString s \<and> startsWith s ''data:image/'' \<and>
         length s \<le> MAX_IMAGE_DATAURL_CHARS \<and>
         model_content ev = Inr (Some c) \<and> js_trim c \<noteq> [] \<and> P (js_trim c) = Some parsed \<and>
         sanitize_score parsed = Inr (Fin x) \<and> sanitize_topFixes parsed = Inr fixes \<and>
         sanitize_narrative parsed = Inr nar \<and> sanitize_laws parsed = Inr lws \<and>
         POST P ev st =
           (\<lparr>status = 200, body = JObject [(''reportId'', JString (new_id ev))]\<rparr>,
            st @ [\<lparr>id' = new_id ev, createdAt = now ev, imageDataUrl = s, goal = [],
                   navItems = 0, ctaCount = 0, formFields = 0,
                   score = integer_part x, topFixes = JArray fixes,
                   laws = JObject (lawsToStore nar lws)\<rparr>])"
  using POST_cases [of P ev st] assms by blast

lemma POST_failure_keeps_store:
  assumes f: "OPENAI_API_KEY ev = None \<or> OPENAI_API_KEY ev = Some []
        \<or> (\<exists>payload. req_json ev = Inr payload \<and>
              (\<not> truthy (optional_prop payload ''imageDataUrl'')
               \<or> (\<exists>s. optional_prop payload ''imageDataUrl'' = JString s \<and>
                       (\<not> startsWith s ''data:image/'' \<or> length s > MAX_IMAGE_DATAURL_CHARS))))
        \<or> model_content ev = Inr None
        \<or> (\<exists>c. model_content ev = Inr (Some c) \<and> (js_trim c = [] \<or> P (js_trim c) = None))"
  shows "snd (POST P ev st) = st \<and> status (fst (POST P ev st)) \<in> {400, 413, 500} \<and>
           (\<exists>msg. get_prop (body (fst (POST P ev st))) ''error'' = Inr (JString msg))"
proof -
  have no: "\<not> (\<exists>k payload s c parsed.
         OPENAI_API_KEY ev = Some k \<and> k \<noteq> [] \<and> req_json ev = Inr payload \<and>
         optional_prop payload ''imageDataUrl'' = JString s \<and> startsWith s ''data:image/'' \<and>
         length s \<le> MAX_IMAGE_DATAURL_CHARS \<and>
         model_content ev = Inr (Some c) \<and> js_trim c \<noteq> [] \<and> P (js_trim c) = Some parsed)"
    using f startsWith_nonempty by fastforce
  with POST_cases [of P ev st]
  have "snd (POST P ev st) = st \<and>
      (\<exists>msg. status (fst (POST P ev st)) \<in> {400, 413, 500} \<and>
             (body (fst (POST P ev st)) = JObject [(''error'', JString msg)] \<or>
              (\<exists>raw. body (fst (POST P ev st)) =
                       JObject [(''error'', JString msg), (''raw'', JString raw)])))"
    by blast
  then show ?thesis
    by (auto simp: obj_get_def)
qed

lemma POST_invalid_json:
  assumes "OPENAI_API_KEY ev = Some k \<and> k \<noteq> [] \<and> req_json ev = Inr payload \<and>
       optional_prop payload ''imageDataUrl'' = JString s \<and> startsWith s ''data:image/'' \<and>
       length s \<le> MAX_IMAGE_DATAURL_CHARS \<and>
       model_content ev = Inr (Some c) \<and> js_trim c \<noteq> [] \<and> P (js_trim c) = None"
  shows "POST P ev st =
             (\<lparr>status = 500,
               body = JObject [(''error'', JString ''Model did not return valid JSON''),
                               (''raw'', JString (js_trim c))]\<rparr>, st)"
  using assms by (simp add: POST_def try_POST_valid ask_model_def)

text \<open>
  Claim C4. A report row is written only after the model's reply was parsed and
  sanitized. If the store changed, the request passed every check, the reply parsed and
  all four fields were sanitized, and the answer is the 200 response with the new
  identifier. A request that fails validation, meets an empty reply or meets a reply
  that is not JSON leaves the store as it was and is answered with status 400, 413 or
  500 and an error message. A reply that is not JSON, on a valid request, is answered
  with status 500 and the reply's text (as handed to the parser, that is without the
  surrounding white space) in the field \<^verbatim>\<open>raw\<close>.
\<close>

theorem row_only_after_sanitized_reply:
  "(snd (POST P ev st) \<noteq> st \<longrightarrow>
      (\<exists>k payload s c parsed x fixes nar lws.
         OPENAI_API_KEY ev = Some k \<and> k \<noteq> [] \<and> req_json ev = Inr payload \<and>
         optional_prop payload ''imageDataUrl'' = JString s \<and> startsWith s ''data:image/'' \<and>
         length s \<le> MAX_IMAGE_DATAURL_CHARS \<and>
         model_content ev = Inr (Some c) \<and> js_trim c \<noteq> [] \<and> P (js_trim c) = Some parsed \<and>
         sanitize_score parsed = Inr (Fin x) \<and> sanitize_topFixes parsed = Inr fixes \<and>
         sanitize_narrative parsed = Inr nar \<and> sanitize_laws parsed = Inr lws \<and>
         POST P ev st =
           (\<lparr>status = 200, body = JObject [(''reportId'', JString (new_id ev))]\<rparr>,
            st @ [\<lparr>id' = new_id ev, createdAt = now ev, imageDataUrl = s, goal = [],
                   navItems = 0, ctaCount = 0, formFields = 0,
                   score = integer_part x, topFixes = JArray fixes,
                   laws = JObject (lawsToStore nar lws)\<rparr>])))
   \<and> ((OPENAI_API_KEY ev = None \<or> OPENAI_API_KEY ev = Some []
        \<or> (\<exists>payload. req_json ev = Inr payload \<and>
              (\<not> truthy (optional_prop payload ''imageDataUrl'')
               \<or> (\<exists>s. optional_prop payload ''imageDataUrl'' = JString s \<and>
                       (\<not> startsWith s ''data:image/'' \<or> length s > MAX_IMAGE_DATAURL_CHARS))))
        \<or> model_content ev = Inr None
        \<or> (\<exists>c. model_content ev = Inr (Some c) \<and> (js_trim c = [] \<or> P (js_trim c) = None)))
       \<longrightarrow> snd (POST P ev st) = st \<and> status (fst (POST P ev st)) \<in> {400, 413, 500} \<and>
           (\<exists>msg. get_prop (body (fst (POST P ev st))) ''error'' = Inr (JString msg)))
   \<and> (OPENAI_API_KEY ev = Some k \<and> k \<noteq> [] \<and> req_json ev = Inr payload \<and>
       optional_prop payload ''imageDataUrl'' = JString s \<and> startsWith s ''data:image/'' \<and>
       length s \<le> MAX_IMAGE_DATAURL_CHARS \<and>
       model_content ev = Inr (Some c) \<and> js_trim c \<noteq> [] \<and> P (js_trim c) = None
       \<longrightarrow> POST P ev st =
             (\<lparr>status = 500,
               body = JObject [(''error'', JString ''Model did not return valid JSON''),
                               (''raw'', JString (js_trim c))]\<rparr>, st))"
  by (rule conjI [OF impI conjI [OF impI impI]])
     (erule POST_row_written, erule POST_failure_keeps_store, erule POST_invalid_json)

lemmas endpoint_defs =
  POST_def try_POST_def ask_model_def persist_def report_create_def stored_row_def integer_column_def
  integer_part_def error_response_def
  optional_prop_def startsWith_def js_trim_def is_ws_def MAX_IMAGE_DATAURL_CHARS_def
  sanitize_score_def sanitize_topFixes_def sanitize_narrative_def sanitize_laws_def
  lawsToStore_def define_all_def obj_set_def has_key_def obj_get_def Number_def clamp_def

theorem row_only_after_sanitized_reply_witness:
  "POST (\<lambda>s. None)
     \<lparr>OPENAI_API_KEY = Some ''sk-test'',
      req_json = Inr (JObject [(''imageDataUrl'', JString ''data:image/jpeg;base64,AAAA'')]),
      model_content = Inr (Some '' I cannot help with that. ''),
      new_id = ''r1'', now = 7\<rparr> []
   = (\<lparr>status = 500,
       body = JObject [(''error'', JString ''Model did not return valid JSON''),
                       (''raw'', JString ''I cannot help with that.'')]\<rparr>, [])
   \<and> POST (\<lambda>s. Some (JObject []))
     \<lparr>OPENAI_API_KEY = Some ''sk-test'',
      req_json = Inr (JObject [(''imageDataUrl'', JString ''data:image/jpeg;base64,AAAA'')]),
      model_content = Inr (Some ''{}''),
      new_id = ''r1'', now = 7\<rparr> []
   = (\<lparr>status = 200, body = JObject [(''reportId'', JString ''r1'')]\<rparr>,
      [\<lparr>id' = ''r1'', createdAt = 7, imageDataUrl = ''data:image/jpeg;base64,AAAA'', goal = [],
        navItems = 0, ctaCount = 0, formFields = 0, score = 0, topFixes = JArray [],
        laws = JObject [(''narrative'', JString [])]\<rparr>])
   \<and> POST (\<lambda>s. Some (JObject []))
     \<lparr>OPENAI_API_KEY = Some ''sk-test'',
      req_json = Inr (JObject [(''imageDataUrl'', JString ''data:image/jpeg;base64,AAAA'')]),
      model_content = Inr (Some ''   ''),
      new_id = ''r1'', now = 7\<rparr> []
   = (\<lparr>status = 500, body = JObject [(''error'', JString ''Model returned empty response'')]\<rparr>, [])"
  using row_only_after_sanitized_reply
    [where P = "\<lambda>s. None" and st = "[]" and k = "''sk-test''"
       and payload = "JObject [(''imageDataUrl'', JString ''data:image/jpeg;base64,AAAA'')]"
       and s = "''data:image/jpeg;base64,AAAA''" and c = "'' I cannot help with that. ''"
       and ev = "\<lparr>OPENAI_API_KEY = Some ''sk-test'',
      req_json = Inr (JObject [(''imageDataUrl'', JString ''data:image/jpeg;base64,AAAA'')]),
      model_content = Inr (Some '' I cannot help with that. ''),
      new_id = ''r1'', now = 7\<rparr>"]
    row_only_after_sanitized_reply
    [where P = "\<lambda>s. Some (JObject [])" and st = "[]"
       and ev = "\<lparr>OPENAI_API_KEY = Some ''sk-test'',
      req_json = Inr (JObject [(''imageDataUrl'', JString ''data:image/jpeg;base64,AAAA'')]),
      model_content = Inr (Some ''{}''),
      new_id = ''r1'', now = 7\<rparr>"]
    row_only_after_sanitized_reply
    [where P = "\<lambda>s. Some (JObject [])" and st = "[]"
       and ev = "\<lparr>OPENAI_API_KEY = Some ''sk-test'',
      req_json = Inr (JObject [(''imageDataUrl'', JString ''data:image/jpeg;base64,AAAA'')]),
      model_content = Inr (Some ''   ''),
      new_id = ''r1'', now = 7\<rparr>"]
  by (simp add: endpoint_defs)

lemma error_response_message:
  "get_prop (body (error_response msg n)) ''error'' = Inr (JString msg)"
  by (simp add: error_response_def obj_get_def)

lemma POST_missing_key:
  assumes "OPENAI_API_KEY ev = None \<or> OPENAI_API_KEY ev = Some []"
  shows "POST P ev st = (error_response ''Missing OPENAI_API_KEY in .env'' 500, st)"
  using assms by (simp add: POST_def try_POST_no_key)

lemma POST_invalid_input:
  assumes "OPENAI_API_KEY ev = Some k \<and> k \<noteq> [] \<and> req_json ev = Inr payload \<and>
       (\<not> truthy (optional_prop payload ''imageDataUrl'')
        \<or> (\<exists>s. optional_prop payload ''imageDataUrl'' = JString s \<and> \<not> startsWith s ''data:image/''))"
  shows "POST P ev st = (error_response ''Missing screenshot upload (imageDataUrl)'' 400, st)"
proof -
  from assms have k: "OPENAI_API_KEY ev = Some k" "k \<noteq> []" and p: "req_json ev = Inr payload"
    by simp_all
  from assms show ?thesis
    unfolding POST_def try_POST_payload [OF k p] by (auto simp: Let_def)
qed

lemma POST_too_large:
  assumes "OPENAI_API_KEY ev = Some k \<and> k \<noteq> [] \<and> req_json ev = Inr payload \<and>
       optional_prop payload ''imageDataUrl'' = JString s \<and> startsWith s ''data:image/'' \<and>
       length s > MAX_IMAGE_DATAURL_CHARS"
  shows "POST P ev st =
           (error_response
              ''Screenshot is too large. Upload a smaller image (or compress it) and try again.''
              413, st)"
proof -
  from assms have k: "OPENAI_API_KEY ev = Some k" "k \<noteq> []" and p: "req_json ev = Inr payload"
    by simp_all
  from assms show ?thesis
    unfolding POST_def try_POST_payload [OF k p] by (auto simp: Let_def dest: startsWith_nonempty)
qed

lemma POST_not_a_string:
  assumes "OPENAI_API_KEY ev = Some k \<and> k \<noteq> [] \<and> req_json ev = Inr payload \<and>
       truthy (optional_prop payload ''imageDataUrl'') \<and>
       (\<forall>s. optional_prop payload ''imageDataUrl'' \<noteq> JString s)"
  shows "POST P ev st = (error_response ''body.imageDataUrl.startsWith is not a function'' 500, st)"
proof -
  from assms have k: "OPENAI_API_KEY ev = Some k" "k \<noteq> []" and p: "req_json ev = Inr payload"
    by simp_all
  from assms show ?thesis
    unfolding POST_def try_POST_payload [OF k p] by (auto simp: Let_def split: jsval.splits)
qed

text \<open>
  Claim C5, as amended. The checks run in this order. Without an API key (unset or
  empty) the answer is status 500, whatever the payload. With a key, a payload whose
  \<^verbatim>\<open>imageDataUrl\<close> is missing or falsy, or is a string that does not start with
  \<^verbatim>\<open>data:image/\<close>, is answered with status 400; one whose
  \<^verbatim>\<open>imageDataUrl\<close> is a string with that prefix and more than 2,000,000
  code units with status 413; and one whose \<^verbatim>\<open>imageDataUrl\<close> is truthy but
  not a string with status 500, through the \<^verbatim>\<open>catch\<close>. Each of these
  responses carries its message under \<^verbatim>\<open>error\<close>, and none touches the store.
\<close>

theorem validation_in_order:
  "(OPENAI_API_KEY ev = None \<or> OPENAI_API_KEY ev = Some []
      \<longrightarrow> POST P ev st = (error_response ''Missing OPENAI_API_KEY in .env'' 500, st))
   \<and> (OPENAI_API_KEY ev = Some k \<and> k \<noteq> [] \<and> req_json ev = Inr payload \<and>
       (\<not> truthy (optional_prop payload ''imageDataUrl'')
        \<or> (\<exists>s. optional_prop payload ''imageDataUrl'' = JString s \<and> \<not> startsWith s ''data:image/''))
      \<longrightarrow> POST P ev st = (error_response ''Missing screenshot upload (imageDataUrl)'' 400, st))
   \<and> (OPENAI_API_KEY ev = Some k \<and> k \<noteq> [] \<and> req_json ev = Inr payload \<and>
       optional_prop payload ''imageDataUrl'' = JString s \<and> startsWith s ''data:image/'' \<and>
       length s > MAX_IMAGE_DATAURL_CHARS
      \<longrightarrow> POST P ev st =
           (error_response
              ''Screenshot is too large. Upload a smaller image (or compress it) and try again.''
              413, st))
   \<and> (OPENAI_API_KEY ev = Some k \<and> k \<noteq> [] \<and> req_json ev = Inr payload \<and>
       truthy (optional_prop payload ''imageDataUrl'') \<and>
       (\<forall>s. optional_prop payload ''imageDataUrl'' \<noteq> JString s)
      \<longrightarrow> POST P ev st = (error_response ''body.imageDataUrl.startsWith is not a function'' 500, st))
   \<and> get_prop (body (error_response msg n)) ''error'' = Inr (JString msg)
   \<and> status (error_response msg n) = n"
  by (rule conjI [OF impI conjI [OF impI conjI [OF impI conjI [OF impI]]]])
     (erule POST_missing_key, erule POST_invalid_input, erule POST_too_large,
      erule POST_not_a_string, simp add: error_response_def obj_get_def)

theorem validation_in_order_witness:
  "POST (\<lambda>s. None)
     \<lparr>OPENAI_API_KEY = None, req_json = Inr (JObject []), model_content = Inr None,
      new_id = ''r1'', now = 7\<rparr> []
     = (error_response ''Missing OPENAI_API_KEY in .env'' 500, [])
   \<and> POST (\<lambda>s. None)
     \<lparr>OPENAI_API_KEY = Some ''sk-test'', req_json = Inr (JObject []), model_content = Inr None,
      new_id = ''r1'', now = 7\<rparr> []
     = (error_response ''Missing screenshot upload (imageDataUrl)'' 400, [])
   \<and> POST (\<lambda>s. None)
     \<lparr>OPENAI_API_KEY = Some ''sk-test'',
      req_json = Inr (JObject [(''imageDataUrl'', JString ''https://example.com/a.png'')]),
      model_content = Inr None, new_id = ''r1'', now = 7\<rparr> []
     = (error_response ''Missing screenshot upload (imageDataUrl)'' 400, [])
   \<and> length (''data:image/'' @ replicate 1999990 (CHR ''A'')) = 2000001
   \<and> POST (\<lambda>s. None)
     \<lparr>OPENAI_API_KEY = Some ''sk-test'',
      req_json = Inr (JObject [(''imageDataUrl'', JString (''data:image/'' @ replicate 1999990 (CHR ''A'')))]),
      model_content = Inr None, new_id = ''r1'', now = 7\<rparr> []
     = (error_response
          ''Screenshot is too large. Upload a smaller image (or compress it) and try again.'' 413, [])
   \<and> POST (\<lambda>s. None)
     \<lparr>OPENAI_API_KEY = Some ''sk-test'',
      req_json = Inr (JObject [(''imageDataUrl'', JBool True)]),
      model_content = Inr None, new_id = ''r1'', now = 7\<rparr> []
     = (error_response ''body.imageDataUrl.startsWith is not a function'' 500, [])"
  using validation_in_order
    [where P = "\<lambda>s. None" and st = "[]"
       and ev = "\<lparr>OPENAI_API_KEY = None, req_json = Inr (JObject []), model_content = Inr None,
                   new_id = ''r1'', now = 7\<rparr>"]
    validation_in_order
    [where P = "\<lambda>s. None" and st = "[]" and k = "''sk-test''" and payload = "JObject []"
       and ev = "\<lparr>OPENAI_API_KEY = Some ''sk-test'', req_json = Inr (JObject []),
                   model_content = Inr None, new_id = ''r1'', now = 7\<rparr>"]
    validation_in_order
    [where P = "\<lambda>s. None" and st = "[]" and k = "''sk-test''"
       and payload = "JObject [(''imageDataUrl'', JString ''https://example.com/a.png'')]"
       and ev = "\<lparr>OPENAI_API_KEY = Some ''sk-test'',
                   req_json = Inr (JObject [(''imageDataUrl'', JString ''https://example.com/a.png'')]),
                   model_content = Inr None, new_id = ''r1'', now = 7\<rparr>"]
    validation_in_order
    [where P = "\<lambda>s. None" and st = "[]" and k = "''sk-test''"
       and s = "''data:image/'' @ replicate 1999990 (CHR ''A'')"
       and payload = "JObject [(''imageDataUrl'', JString (''data:image/'' @ replicate 1999990 (CHR ''A'')))]"
       and ev = "\<lparr>OPENAI_API_KEY = Some ''sk-test'',
                   req_json = Inr (JObject [(''imageDataUrl'', JString (''data:image/'' @ replicate 1999990 (CHR ''A'')))]),
                   model_content = Inr None, new_id = ''r1'', now = 7\<rparr>"]
    validation_in_order
    [where P = "\<lambda>s. None" and st = "[]" and k = "''sk-test''"
       and payload = "JObject [(''imageDataUrl'', JBool True)]"
       and ev = "\<lparr>OPENAI_API_KEY = Some ''sk-test'',
                   req_json = Inr (JObject [(''imageDataUrl'', JBool True)]),
                   model_content = Inr None, new_id = ''r1'', now = 7\<rparr>"]
  by (simp add: optional_prop_def obj_get_def startsWith_def MAX_IMAGE_DATAURL_CHARS_def)

text \<open>
  Claim C5 as stated fails: the payload \<^verbatim>\<open>{"imageDataUrl": 123}\<close> has no image
  prefix, and the answer is status 500, not 400, because \<^verbatim>\<open>startsWith\<close> is
  called on a number.
\<close>

theorem non_string_imageDataUrl_counterexample:
  "status (fst (POST (\<lambda>s. None)
     \<lparr>OPENAI_API_KEY = Some ''sk-test'',
      req_json = Inr (JObject [(''imageDataUrl'', JNumber (Fin 123))]),
      model_content = Inr None, new_id = ''r1'', now = 7\<rparr> [])) = 500
   \<and> status (fst (POST (\<lambda>s. None)
     \<lparr>OPENAI_API_KEY = Some ''sk-test'',
      req_json = Inr (JObject [(''imageDataUrl'', JNumber (Fin 123))]),
      model_content = Inr None, new_id = ''r1'', now = 7\<rparr> [])) \<noteq> 400"
  by (simp add: endpoint_defs)

lemma POST_success:
  assumes "OPENAI_API_KEY ev = Some k" "k \<noteq> []" "req_json ev = Inr payload"
    "optional_prop payload ''imageDataUrl'' = JString s" "startsWith s ''data:image/''"
    "length s \<le> MAX_IMAGE_DATAURL_CHARS"
    "model_content ev = Inr (Some c)" "js_trim c \<noteq> []" "P (js_trim c) = Some parsed"
    "sanitize_score parsed = Inr (Fin x)" "sanitize_topFixes parsed = Inr fixes"
    "sanitize_narrative parsed = Inr nar" "sanitize_laws parsed = Inr lws"
    "new_id ev \<notin> set (map id' st)"
  shows "POST P ev st =
           (\<lparr>status = 200, body = JObject [(''reportId'', JString (new_id ev))]\<rparr>,
            st @ [\<lparr>id' = new_id ev, createdAt = now ev, imageDataUrl = s, goal = [],
                   navItems = 0, ctaCount = 0, formFields = 0,
                   score = integer_part x, topFixes = JArray fixes,
                   laws = JObject (lawsToStore nar lws)\<rparr>])"
  using assms by (simp add: POST_def try_POST_valid ask_model_def persist_Inr)

text \<open>The part of claim C1 that holds: a score that converts to a number is clamped.\<close>

lemma clamp_range:
  "clamp n (Fin 0) (Fin 100) = NaN \<and> n = NaN
   \<or> (\<exists>x. clamp n (Fin 0) (Fin 100) = Fin x \<and> 0 \<le> x \<and> x \<le> 100)"
  by (cases n) (auto simp: clamp_def)

lemma sanitize_score_number:
  "get_prop parsed ''score'' = Inr (JNumber (Fin x)) \<Longrightarrow>
   sanitize_score parsed = Inr (Fin (max 0 (min 100 x)))"
  by (simp add: sanitize_score_def Number_def clamp_def)

lemma sanitize_score_missing:
  "get_prop parsed ''score'' = Inr JUndefined \<or> get_prop parsed ''score'' = Inr JNull \<Longrightarrow>
   sanitize_score parsed = Inr (Fin 0)"
  by (auto simp: sanitize_score_def Number_def clamp_def)

lemma sanitize_narrative_length:
  "sanitize_narrative parsed = Inr nar \<Longrightarrow> length nar \<le> 1500"
  by (auto simp: sanitize_narrative_def split: sum.splits jsval.splits)

lemma sanitize_topFixes_length:
  "sanitize_topFixes parsed = Inr fixes \<Longrightarrow> length fixes \<le> 3"
  by (auto simp: sanitize_topFixes_def split: sum.splits jsval.splits)

lemma obj_get_own_entries_JObject:
  "obj_get (own_entries (JObject kvs)) k = obj_get kvs k"
  by (simp add: obj_get_define_all obj_get_Nil split: option.splits)

lemma obj_get_lawsToStore:
  "obj_get (lawsToStore nar lws) k =
     (case obj_get (own_entries lws) k of
        Some v \<Rightarrow> Some v
      | None \<Rightarrow> if k = ''narrative'' then Some (JString nar) else None)"
  by (simp add: lawsToStore_def obj_get_define_all obj_get_Cons obj_get_Nil split: option.splits)

lemma sanitize_laws_kept:
  assumes "get_prop parsed ''laws'' = Inr lf"
  shows "sanitize_laws parsed = Inr (case lf of JObject kvs \<Rightarrow> lf | JArray xs \<Rightarrow> lf | _ \<Rightarrow> JObject [])"
  using assms by (simp add: sanitize_laws_def split: jsval.splits)

lemma narrative_folded:
  assumes "\<not> has_key (own_entries lws) ''narrative''"
  shows "obj_get (lawsToStore nar lws) k =
           (if k = ''narrative'' then Some (JString nar) else obj_get (own_entries lws) k)"
  using assms by (auto simp: obj_get_lawsToStore obj_get_None_iff [symmetric] split: option.splits)

lemma integer_part_range:
  assumes "0 \<le> x" "x \<le> 100"
  shows "0 \<le> integer_part x \<and> integer_part x \<le> 100"
  using assms by (simp add: integer_part_def floor_le_iff)


text \<open>Every score that the endpoint gets stored is an integer from 0 to 100.\<close>

lemma sanitize_score_Fin_range:
  assumes "sanitize_score parsed = Inr (Fin x)"
  shows "0 \<le> x \<and> x \<le> 100"
proof -
  from assms obtain n where "clamp n (Fin 0) (Fin 100) = Fin x"
    by (auto simp: sanitize_score_def split: sum.splits)
  with clamp_range [of n] show ?thesis by auto
qed

lemma stored_score_range:
  assumes "snd (POST P ev st) \<noteq> st"
  shows "\<exists>r. snd (POST P ev st) = st @ [r] \<and> 0 \<le> score r \<and> score r \<le> 100"
proof -
  from POST_row_written [OF assms] obtain x s fs nar lws parsed where
    x: "sanitize_score parsed = Inr (Fin x)" and
    p: "snd (POST P ev st) =
          st @ [\<lparr>id' = new_id ev, createdAt = now ev, imageDataUrl = s, goal = [],
                 navItems = 0, ctaCount = 0, formFields = 0,
                 score = integer_part x, topFixes = JArray fs,
                 laws = JObject (lawsToStore nar lws)\<rparr>]"
    by fastforce
  from sanitize_score_Fin_range [OF x] have "0 \<le> integer_part x \<and> integer_part x \<le> 100"
    by (intro integer_part_range) simp_all
  with p show ?thesis by simp
qed

lemma scenario_persisted:
  assumes "OPENAI_API_KEY ev = Some k \<and> k \<noteq> [] \<and> req_json ev = Inr payload \<and>
       optional_prop payload ''imageDataUrl'' = JString s \<and> startsWith s ''data:image/'' \<and>
       length s \<le> MAX_IMAGE_DATAURL_CHARS \<and>
       model_content ev = Inr (Some c) \<and> js_trim c \<noteq> [] \<and>
       P (js_trim c) = Some (JObject [(''score'', JNumber (Fin 150)),
                                      (''topFixes'', JArray [a, b, c', d]),
                                      (''narrative'', JString n)]) \<and>
       new_id ev \<notin> set (map id' st)"
  shows "POST P ev st =
           (\<lparr>status = 200, body = JObject [(''reportId'', JString (new_id ev))]\<rparr>,
            st @ [\<lparr>id' = new_id ev, createdAt = now ev, imageDataUrl = s, goal = [],
                   navItems = 0, ctaCount = 0, formFields = 0,
                   score = 100, topFixes = JArray [a, b, c'],
                   laws = JObject [(''narrative'', JString (take 1500 n))]\<rparr>])"
proof -
  let ?p = "JObject [(''score'', JNumber (Fin 150)), (''topFixes'', JArray [a, b, c', d]),
                     (''narrative'', JString n)]"
  have 1: "sanitize_score ?p = Inr (Fin 100)"
    by (simp add: sanitize_score_def obj_get_def Number_def clamp_def)
  have 2: "sanitize_topFixes ?p = Inr [a, b, c']"
    by (simp add: sanitize_topFixes_def obj_get_def)
  have 3: "sanitize_narrative ?p = Inr (take 1500 n)"
    by (simp add: sanitize_narrative_def obj_get_def)
  have 4: "sanitize_laws ?p = Inr (JObject [])"
    by (simp add: sanitize_laws_def obj_get_def)
  have 5: "lawsToStore (take 1500 n) (JObject []) = [(''narrative'', JString (take 1500 n))]"
    by (simp add: lawsToStore_def define_all_def)
  have 6: "integer_part 100 = 100"
    by (simp add: integer_part_def)
  from assms show ?thesis
    using POST_success [where parsed = ?p, OF _ _ _ _ _ _ _ _ _ 1 2 3 4] 5 6 by simp
qed

lemma laws_persisted:
  assumes "OPENAI_API_KEY ev = Some k \<and> k \<noteq> [] \<and> req_json ev = Inr payload \<and>
       optional_prop payload ''imageDataUrl'' = JString s \<and> startsWith s ''data:image/'' \<and>
       length s \<le> MAX_IMAGE_DATAURL_CHARS \<and>
       model_content ev = Inr (Some c) \<and> js_trim c \<noteq> [] \<and> P (js_trim c) = Some parsed \<and>
       sanitize_score parsed = Inr (Fin x) \<and> sanitize_topFixes parsed = Inr fs \<and>
       sanitize_narrative parsed = Inr nar \<and> sanitize_laws parsed = Inr lws \<and>
       get_prop parsed ''laws'' = Inr lf \<and> new_id ev \<notin> set (map id' st)"
  shows "lws = (case lf of JObject kvs \<Rightarrow> lf | JArray xs \<Rightarrow> lf | _ \<Rightarrow> JObject [])
     \<and> POST P ev st =
           (\<lparr>status = 200, body = JObject [(''reportId'', JString (new_id ev))]\<rparr>,
            st @ [\<lparr>id' = new_id ev, createdAt = now ev, imageDataUrl = s, goal = [],
                   navItems = 0, ctaCount = 0, formFields = 0,
                   score = integer_part x, topFixes = JArray fs,
                   laws = JObject (lawsToStore nar lws)\<rparr>])
     \<and> (\<not> has_key (own_entries lws) ''narrative'' \<longrightarrow>
          (\<forall>j. obj_get (lawsToStore nar lws) j =
                 (if j = ''narrative'' then Some (JString nar) else obj_get (own_entries lws) j)))
     \<and> (lws = JObject [] \<longrightarrow> lawsToStore nar lws = [(''narrative'', JString nar)])
     \<and> (\<forall>kvs j. lws = JObject kvs \<longrightarrow> obj_get (own_entries lws) j = obj_get kvs j)
     \<and> (\<forall>xs. lws = JArray xs \<longrightarrow>
           \<not> has_key (own_entries lws) ''narrative'' \<and>
           (\<forall>i. i < length xs \<longrightarrow> obj_get (own_entries lws) (nat_to_string i) = Some (xs ! i)))"
proof -
  from assms have lf: "get_prop parsed ''laws'' = Inr lf" and lws: "sanitize_laws parsed = Inr lws"
    by simp_all
  from sanitize_laws_kept [OF lf] lws
  have 1: "lws = (case lf of JObject kvs \<Rightarrow> lf | JArray xs \<Rightarrow> lf | _ \<Rightarrow> JObject [])"
    by simp
  from assms have 2: "POST P ev st =
           (\<lparr>status = 200, body = JObject [(''reportId'', JString (new_id ev))]\<rparr>,
            st @ [\<lparr>id' = new_id ev, createdAt = now ev, imageDataUrl = s, goal = [],
                   navItems = 0, ctaCount = 0, formFields = 0,
                   score = integer_part x, topFixes = JArray fs,
                   laws = JObject (lawsToStore nar lws)\<rparr>])"
    by (intro POST_success [where k = k and payload = payload and c = c and parsed = parsed]) simp_all
  have 3: "\<not> has_key (own_entries lws) ''narrative'' \<longrightarrow>
          (\<forall>j. obj_get (lawsToStore nar lws) j =
                 (if j = ''narrative'' then Some (JString nar) else obj_get (own_entries lws) j))"
    using narrative_folded [of lws nar] by blast
  have 4: "lws = JObject [] \<longrightarrow> lawsToStore nar lws = [(''narrative'', JString nar)]"
    by (simp add: lawsToStore_def define_all_def)
  have 5: "\<forall>kvs j. lws = JObject kvs \<longrightarrow> obj_get (own_entries lws) j = obj_get kvs j"
    using obj_get_own_entries_JObject by blast
  have 6: "\<forall>xs. lws = JArray xs \<longrightarrow>
           \<not> has_key (own_entries lws) ''narrative'' \<and>
           (\<forall>i. i < length xs \<longrightarrow> obj_get (own_entries lws) (nat_to_string i) = Some (xs ! i))"
    using array_has_no_narrative obj_get_own_entries_JArray by blast
  from 1 2 3 4 5 6 show ?thesis by blast
qed

text \<open>
  Claim C3, as amended. Take a request that the endpoint persists: it passes the checks,
  the reply parses to a value other than \<^verbatim>\<open>null\<close> whose score sanitizes to a
  number, and the identifier is new. The endpoint then keeps the \<^verbatim>\<open>laws\<close> field
  when it is an object or an array and uses an empty mapping otherwise, and the row it
  appends holds the mapping built from the kept value: when that value has no entry
  named \<^verbatim>\<open>narrative\<close> of its own, the sanitized narrative under that key and,
  under every other key, what the kept value holds (an object its members, an array its
  elements under their indices; an array never has an entry named
  \<^verbatim>\<open>narrative\<close>); for the empty mapping, the narrative key alone. In the scenario
  (score 150, four top fixes, no laws) the row has score 100, the first three fixes and
  a mapping with the narrative key alone.
\<close>

theorem laws_kept_and_narrative_folded:
  "(OPENAI_API_KEY ev = Some k \<and> k \<noteq> [] \<and> req_json ev = Inr payload \<and>
       optional_prop payload ''imageDataUrl'' = JString s \<and> startsWith s ''data:image/'' \<and>
       length s \<le> MAX_IMAGE_DATAURL_CHARS \<and>
       model_content ev = Inr (Some c) \<and> js_trim c \<noteq> [] \<and> P (js_trim c) = Some parsed \<and>
       sanitize_score parsed = Inr (Fin x) \<and> sanitize_topFixes parsed = Inr fs \<and>
       sanitize_narrative parsed = Inr nar \<and> sanitize_laws parsed = Inr lws \<and>
       get_prop parsed ''laws'' = Inr lf \<and> new_id ev \<notin> set (map id' st)
      \<longrightarrow>
       lws = (case lf of JObject kvs \<Rightarrow> lf | JArray xs \<Rightarrow> lf | _ \<Rightarrow> JObject [])
     \<and> POST P ev st =
           (\<lparr>status = 200, body = JObject [(''reportId'', JString (new_id ev))]\<rparr>,
            st @ [\<lparr>id' = new_id ev, createdAt = now ev, imageDataUrl = s, goal = [],
                   navItems = 0, ctaCount = 0, formFields = 0,
                   score = integer_part x, topFixes = JArray fs,
                   laws = JObject (lawsToStore nar lws)\<rparr>])
     \<and> (\<not> has_key (own_entries lws) ''narrative'' \<longrightarrow>
          (\<forall>j. obj_get (lawsToStore nar lws) j =
                 (if j = ''narrative'' then Some (JString nar) else obj_get (own_entries lws) j)))
     \<and> (lws = JObject [] \<longrightarrow> lawsToStore nar lws = [(''narrative'', JString nar)])
     \<and> (\<forall>kvs j. lws = JObject kvs \<longrightarrow> obj_get (own_entries lws) j = obj_get kvs j)
     \<and> (\<forall>xs. lws = JArray xs \<longrightarrow>
           \<not> has_key (own_entries lws) ''narrative'' \<and>
           (\<forall>i. i < length xs \<longrightarrow> obj_get (own_entries lws) (nat_to_string i) = Some (xs ! i))))
   \<and> (OPENAI_API_KEY ev' = Some k' \<and> k' \<noteq> [] \<and> req_json ev' = Inr payload' \<and>
       optional_prop payload' ''imageDataUrl'' = JString s' \<and> startsWith s' ''data:image/'' \<and>
       length s' \<le> MAX_IMAGE_DATAURL_CHARS \<and>
       model_content ev' = Inr (Some c') \<and> js_trim c' \<noteq> [] \<and>
       P' (js_trim c') = Some (JObject [(''score'', JNumber (Fin 150)),
                                       (''topFixes'', JArray [a, b, d, e]),
                                       (''narrative'', JString n)]) \<and>
       new_id ev' \<notin> set (map id' st')
      \<longrightarrow> POST P' ev' st' =
           (\<lparr>status = 200, body = JObject [(''reportId'', JString (new_id ev'))]\<rparr>,
            st' @ [\<lparr>id' = new_id ev', createdAt = now ev', imageDataUrl = s', goal = [],
                   navItems = 0, ctaCount = 0, formFields = 0,
                   score = 100, topFixes = JArray [a, b, d],
                   laws = JObject [(''narrative'', JString (take 1500 n))]\<rparr>]))"
  by (rule conjI [OF impI impI]) (erule laws_persisted, erule scenario_persisted)

theorem laws_kept_and_narrative_folded_witness:
  "POST (\<lambda>t. if t = ''reply'' then Some (JObject [(''score'', JNumber (Fin 80)),
                  (''narrative'', JString ''Clear page.''),
                  (''laws'', JObject [(''hicks'', JObject [(''severity'', JString ''High'')])])])
              else None)
       \<lparr>OPENAI_API_KEY = Some ''sk-test'',
        req_json = Inr (JObject [(''imageDataUrl'', JString ''data:image/jpeg;base64,AAAA'')]),
        model_content = Inr (Some ''reply''), new_id = ''r1'', now = 7\<rparr> []
     = (\<lparr>status = 200, body = JObject [(''reportId'', JString ''r1'')]\<rparr>,
        [\<lparr>id' = ''r1'', createdAt = 7, imageDataUrl = ''data:image/jpeg;base64,AAAA'', goal = [],
          navItems = 0, ctaCount = 0, formFields = 0,
          score = 80, topFixes = JArray [],
          laws = JObject [(''narrative'', JString ''Clear page.''),
                          (''hicks'', JObject [(''severity'', JString ''High'')])]\<rparr>])
   \<and> obj_get (lawsToStore ''Clear page.'' (JObject [(''hicks'', JObject [(''severity'', JString ''High'')])]))
        ''narrative'' = Some (JString ''Clear page.'')
   \<and> obj_get (lawsToStore ''Clear page.'' (JObject [(''hicks'', JObject [(''severity'', JString ''High'')])]))
        ''hicks'' = Some (JObject [(''severity'', JString ''High'')])
   \<and> POST (\<lambda>t. if t = ''reply'' then Some (JObject [(''score'', JNumber (Fin 150)),
                                      (''topFixes'', JArray [JString ''a'', JString ''b'', JString ''c'', JString ''d'']),
                                      (''narrative'', JString ''...'')]) else None)
       \<lparr>OPENAI_API_KEY = Some ''sk-test'',
        req_json = Inr (JObject [(''imageDataUrl'', JString ''data:image/jpeg;base64,AAAA'')]),
        model_content = Inr (Some ''reply''), new_id = ''r1'', now = 7\<rparr> []
     = (\<lparr>status = 200, body = JObject [(''reportId'', JString ''r1'')]\<rparr>,
        [\<lparr>id' = ''r1'', createdAt = 7, imageDataUrl = ''data:image/jpeg;base64,AAAA'', goal = [],
          navItems = 0, ctaCount = 0, formFields = 0,
          score = 100, topFixes = JArray [JString ''a'', JString ''b'', JString ''c''],
          laws = JObject [(''narrative'', JString ''...'')]\<rparr>])"
  using laws_kept_and_narrative_folded
    [where P = "\<lambda>t. if t = ''reply'' then Some (JObject [(''score'', JNumber (Fin 80)),
                  (''narrative'', JString ''Clear page.''),
                  (''laws'', JObject [(''hicks'', JObject [(''severity'', JString ''High'')])])])
              else None"
       and ev = "\<lparr>OPENAI_API_KEY = Some ''sk-test'',
        req_json = Inr (JObject [(''imageDataUrl'', JString ''data:image/jpeg;base64,AAAA'')]),
        model_content = Inr (Some ''reply''), new_id = ''r1'', now = 7\<rparr>"
       and st = "[]" and k = "''sk-test''" and s = "''data:image/jpeg;base64,AAAA''"
       and payload = "JObject [(''imageDataUrl'', JString ''data:image/jpeg;base64,AAAA'')]"
       and c = "''reply''"
       and parsed = "JObject [(''score'', JNumber (Fin 80)),
                  (''narrative'', JString ''Clear page.''),
                  (''laws'', JObject [(''hicks'', JObject [(''severity'', JString ''High'')])])]"
       and x = 80 and fs = "[]" and nar = "''Clear page.''"
       and lws = "JObject [(''hicks'', JObject [(''severity'', JString ''High'')])]"
       and lf = "JObject [(''hicks'', JObject [(''severity'', JString ''High'')])]"
       and P' = "\<lambda>t. if t = ''reply'' then Some (JObject [(''score'', JNumber (Fin 150)),
                                      (''topFixes'', JArray [JString ''a'', JString ''b'', JString ''c'', JString ''d'']),
                                      (''narrative'', JString ''...'')]) else None"
       and ev' = "\<lparr>OPENAI_API_KEY = Some ''sk-test'',
        req_json = Inr (JObject [(''imageDataUrl'', JString ''data:image/jpeg;base64,AAAA'')]),
        model_content = Inr (Some ''reply''), new_id = ''r1'', now = 7\<rparr>"
       and st' = "[]" and k' = "''sk-test''" and s' = "''data:image/jpeg;base64,AAAA''"
       and payload' = "JObject [(''imageDataUrl'', JString ''data:image/jpeg;base64,AAAA'')]"
       and c' = "''reply''" and a = "JString ''a''" and b = "JString ''b''" and d = "JString ''c''"
       and e = "JString ''d''" and n = "''...''"]
  by (simp add: endpoint_defs is_array_index_def is_digit_def)

text \<open>
  Claim C3 as stated fails: an array is not a mapping, yet \<^verbatim>\<open>typeof\<close> calls it
  an object, so the reply \<^verbatim>\<open>{"laws": ["x"]}\<close> is stored with the entry
  \<^verbatim>\<open>"0": "x"\<close> beside the narrative, not as the empty mapping plus the
  narrative.
\<close>

theorem array_laws_counterexample:
  "map laws (snd (POST (\<lambda>t. Some (JObject [(''laws'', JArray [JString ''x''])]))
       \<lparr>OPENAI_API_KEY = Some ''sk-test'',
        req_json = Inr (JObject [(''imageDataUrl'', JString ''data:image/jpeg;base64,AAAA'')]),
        model_content = Inr (Some ''reply''), new_id = ''r1'', now = 7\<rparr> []))
     = [JObject [(''0'', JString ''x''), (''narrative'', JString [])]]
   \<and> map laws (snd (POST (\<lambda>t. Some (JObject [(''laws'', JArray [JString ''x''])]))
       \<lparr>OPENAI_API_KEY = Some ''sk-test'',
        req_json = Inr (JObject [(''imageDataUrl'', JString ''data:image/jpeg;base64,AAAA'')]),
        model_content = Inr (Some ''reply''), new_id = ''r1'', now = 7\<rparr> []))
     \<noteq> [JObject [(''narrative'', JString [])]]"
  by (simp add: endpoint_defs is_array_index_def is_digit_def digits_val_def digit_val_def
      nat_to_string.simps)

text \<open>
  Claim C1 at a reply whose score is not numeric, \<^verbatim>\<open>{"score": "high"}\<close>:
  \<^verbatim>\<open>Number\<close> makes the string NaN, which \<^verbatim>\<open>Math.min\<close> and
  \<^verbatim>\<open>Math.max\<close> pass on, so the score the endpoint computes and hands to
  \<^verbatim>\<open>create\<close> is NaN and not 0. The integer column refuses it: the endpoint answers
  500 and no row is written, where the claim has a row with score 0.
\<close>

theorem non_numeric_score_is_not_coerced_to_0:
  "sanitize_score (JObject [(''score'', JString ''high'')]) = Inr NaN
   \<and> sanitize_score (JObject [(''score'', JString ''high'')]) \<noteq> Inr (Fin 0)
   \<and> status (fst (POST (\<lambda>t. Some (JObject [(''score'', JString ''high'')]))
       \<lparr>OPENAI_API_KEY = Some ''sk-test'',
        req_json = Inr (JObject [(''imageDataUrl'', JString ''data:image/jpeg;base64,AAAA'')]),
        model_content = Inr (Some ''reply''), new_id = ''r1'', now = 7\<rparr> [])) = 500
   \<and> snd (POST (\<lambda>t. Some (JObject [(''score'', JString ''high'')]))
       \<lparr>OPENAI_API_KEY = Some ''sk-test'',
        req_json = Inr (JObject [(''imageDataUrl'', JString ''data:image/jpeg;base64,AAAA'')]),
        model_content = Inr (Some ''reply''), new_id = ''r1'', now = 7\<rparr> []) = []"
  by (simp add: endpoint_defs is_array_index_def is_digit_def
      StringToNumber_def unsigned_decimal_def)

text \<open>
  Claim C2 at the reply \<^verbatim>\<open>{"narrative": "ok", "laws": {"narrative": s}}\<close> with
  \<open>s\<close> of 1501 code units: the spread writes the members of \<^verbatim>\<open>laws\<close> after
  the sanitized narrative, so the narrative that is stored, and that the results page
  shows, is \<open>s\<close>.
\<close>

theorem narrative_overwritten_by_laws:
  "map laws (snd (POST (\<lambda>t. Some (JObject [(''narrative'', JString ''ok''),
                     (''laws'', JObject [(''narrative'', JString (replicate 1501 (CHR ''x'')))])]))
       \<lparr>OPENAI_API_KEY = Some ''sk-test'',
        req_json = Inr (JObject [(''imageDataUrl'', JString ''data:image/jpeg;base64,AAAA'')]),
        model_content = Inr (Some ''reply''), new_id = ''r1'', now = 7\<rparr> []))
     = [JObject [(''narrative'', JString (replicate 1501 (CHR ''x'')))]]
   \<and> shown_narrative_of (JObject [(''narrative'', JString (replicate 1501 (CHR ''x'')))])
     = replicate 1501 (CHR ''x'')
   \<and> length (replicate 1501 (CHR ''x'')) = 1501"
  by (simp add: endpoint_defs is_array_index_def is_digit_def shown_narrative_of_def)

section \<open>Properties of the results page\<close>

lemma severityStyle_default:
  assumes "sev \<noteq> JString ''High'' \<and> sev \<noteq> JString ''Medium''"
  shows "severityStyle sev = \<lparr>borderColor = ''#666'', background = ''#1a1a1a'', color = ''#b0b0b0''\<rparr>
       \<and> severityStyle_sheet sev = \<lparr>borderColor = ''#666'', background = ''#1a1a1a'', color = ''#b0b0b0''\<rparr>
       \<and> severityStyle sev = severityStyle (JString ''Low'')
       \<and> severityStyle_sheet sev = severityStyle_sheet (JString ''Low'')"
  using assms by (simp add: severityStyle_def severityStyle_sheet_def)

lemma law_card_of_unexpected_severity:
  assumes "get_prop item ''severity'' = Inr sev \<and> sev \<noteq> JString ''High'' \<and> sev \<noteq> JString ''Medium''"
  shows "\<exists>ttl fnd. law_card_of (key, item) =
           Inr \<lparr>card_key = key, card_title = ttl,
                card_tag = \<lparr>borderColor = ''#666'', background = ''#1a1a1a'', color = ''#b0b0b0''\<rparr>,
                card_severity = sev, card_finding = fnd\<rparr>"
  using assms by (cases item) (auto simp: law_card_of_def severityStyle_def)

text \<open>
  Claim C10. \<^verbatim>\<open>severityStyle\<close>, in both of its copies, gives the Low styling for
  every value other than the strings \<^verbatim>\<open>"High"\<close> and \<^verbatim>\<open>"Medium"\<close>, the
  same as for \<^verbatim>\<open>"Low"\<close>: no input makes it fail. A law finding whose severity is
  such a value still yields its card, with the Low styling and the severity as stored.
\<close>

theorem severityStyle_falls_through_to_Low:
  "(sev \<noteq> JString ''High'' \<and> sev \<noteq> JString ''Medium'' \<longrightarrow>
      severityStyle sev = \<lparr>borderColor = ''#666'', background = ''#1a1a1a'', color = ''#b0b0b0''\<rparr>
       \<and> severityStyle_sheet sev = \<lparr>borderColor = ''#666'', background = ''#1a1a1a'', color = ''#b0b0b0''\<rparr>
       \<and> severityStyle sev = severityStyle (JString ''Low'')
       \<and> severityStyle_sheet sev = severityStyle_sheet (JString ''Low''))
   \<and> (get_prop item ''severity'' = Inr sev \<and> sev \<noteq> JString ''High'' \<and> sev \<noteq> JString ''Medium'' \<longrightarrow>
        (\<exists>ttl fnd. law_card_of (key, item) =
           Inr \<lparr>card_key = key, card_title = ttl,
                card_tag = \<lparr>borderColor = ''#666'', background = ''#1a1a1a'', color = ''#b0b0b0''\<rparr>,
                card_severity = sev, card_finding = fnd\<rparr>))"
  by (rule conjI [OF impI impI]) (erule severityStyle_default, erule law_card_of_unexpected_severity)

theorem severityStyle_falls_through_to_Low_witness:
  "severityStyle (JString ''Critical'') = \<lparr>borderColor = ''#666'', background = ''#1a1a1a'', color = ''#b0b0b0''\<rparr>
   \<and> severityStyle_sheet (JString ''Critical'') = \<lparr>borderColor = ''#666'', background = ''#1a1a1a'', color = ''#b0b0b0''\<rparr>
   \<and> severityStyle JUndefined = severityStyle (JString ''Low'')
   \<and> law_card_of (''hicks'', JObject [(''title'', JString ''Hick''), (''severity'', JString ''Critical''),
                                       (''finding'', JString ''Too many choices'')])
      = Inr \<lparr>card_key = ''hicks'', card_title = JString ''Hick'',
              card_tag = \<lparr>borderColor = ''#666'', background = ''#1a1a1a'', color = ''#b0b0b0''\<rparr>,
              card_severity = JString ''Critical'', card_finding = JString ''Too many choices''\<rparr>"
  using severityStyle_falls_through_to_Low [of "JString ''Critical''"
      "JObject [(''title'', JString ''Hick''), (''severity'', JString ''Critical''),
                (''finding'', JString ''Too many choices'')]" "''hicks''"]
    severityStyle_falls_through_to_Low [of JUndefined]
  by (simp add: severityStyle_def severityStyle_sheet_def law_card_of_def obj_get_def)

lemma ResultsPage_not_found:
  assumes "findUnique st i = None"
  shows "ResultsPage st i = Inr NotFound"
  using assms by (simp add: ResultsPage_def)

text \<open>A law entry that is not \<^verbatim>\<open>null\<close> gives its card, whatever else it is.\<close>

lemma law_card_of_nonnull:
  assumes "snd e \<noteq> JNull \<and> snd e \<noteq> JUndefined"
  shows "law_card_of e =
           Inr \<lparr>card_key = fst e, card_title = optional_prop (snd e) ''title'',
                card_tag = severityStyle (optional_prop (snd e) ''severity''),
                card_severity = optional_prop (snd e) ''severity'',
                card_finding = optional_prop (snd e) ''finding''\<rparr>"
  using assms by (cases "snd e") (simp_all add: law_card_of_def optional_prop_def)

lemma map_cards_nonnull:
  "list_all (\<lambda>e. snd e \<noteq> JNull \<and> snd e \<noteq> JUndefined) es \<Longrightarrow>
   map_cards es =
     Inr (map (\<lambda>e. \<lparr>card_key = fst e, card_title = optional_prop (snd e) ''title'',
                      card_tag = severityStyle (optional_prop (snd e) ''severity''),
                      card_severity = optional_prop (snd e) ''severity'',
                      card_finding = optional_prop (snd e) ''finding''\<rparr>) es)"
  by (induction es) (simp_all add: law_card_of_nonnull)

text \<open>Defining properties adds no value that was not given.\<close>

lemma insert_index_set: "set (insert_index n k v kvs) = insert (k, v) (set kvs)"
  by (induction kvs) (auto split: if_splits)

lemma obj_set_values: "snd ` set (obj_set acc k v) \<subseteq> insert v (snd ` set acc)"
  by (auto simp: obj_set_def insert_index_set split: if_splits)

lemma define_all_values: "snd ` set (define_all es acc) \<subseteq> snd ` set es \<union> snd ` set acc"
proof (induction es arbitrary: acc)
  case Nil
  then show ?case by (simp add: define_all_def)
next
  case (Cons e es)
  obtain k v where e: "e = (k, v)" by (cases e)
  have "define_all (e # es) acc = define_all es (obj_set acc k v)"
    by (simp add: define_all_def e)
  with Cons.IH [of "obj_set acc k v"] obj_set_values [of acc k v]
  show ?case by (auto simp: e)
qed

lemma law_entries_values: "snd ` set (law_entries (JObject kvs)) \<subseteq> snd ` set kvs"
proof -
  have "snd ` set (law_entries (JObject kvs))
        \<subseteq> snd ` set (filter (\<lambda>(k, v). k \<noteq> ''narrative'') (define_all kvs []))"
    using define_all_values [of "filter (\<lambda>(k, v). k \<noteq> ''narrative'') (define_all kvs [])" "[]"]
    by (simp add: law_entries_def)
  also have "\<dots> \<subseteq> snd ` set (define_all kvs [])" by auto
  also have "\<dots> \<subseteq> snd ` set kvs"
    using define_all_values [of kvs "[]"] by simp
  finally show ?thesis .
qed

lemma shown_entries_nonnull:
  assumes "list_all (\<lambda>e. snd e \<noteq> JNull \<and> snd e \<noteq> JUndefined) kvs"
  shows "list_all (\<lambda>e. snd e \<noteq> JNull \<and> snd e \<noteq> JUndefined) (take 3 (law_entries (JObject kvs)))"
proof -
  have "snd e \<noteq> JNull \<and> snd e \<noteq> JUndefined" if "e \<in> set (take 3 (law_entries (JObject kvs)))" for e
  proof -
    from that have "e \<in> set (law_entries (JObject kvs))" by (rule in_set_takeD)
    then have "snd e \<in> snd ` set kvs" using law_entries_values [of kvs] by auto
    with assms show ?thesis by (auto simp: list_all_iff)
  qed
  then show ?thesis by (simp add: list_all_iff)
qed

lemma render_report_no_fixes:
  assumes "topFixes r = JArray []"
    and "list_all (\<lambda>e. snd e \<noteq> JNull \<and> snd e \<noteq> JUndefined)
           (take 3 (law_entries (nullish_or (laws r) (JObject []))))"
  shows "render_report r =
           Inr (Report (imageDataUrl r) (score r)
                  (shown_narrative_of (nullish_or (laws r) (JObject []))) [NoIssues]
                  (map (\<lambda>e. \<lparr>card_key = fst e, card_title = optional_prop (snd e) ''title'',
                                card_tag = severityStyle (optional_prop (snd e) ''severity''),
                                card_severity = optional_prop (snd e) ''severity'',
                                card_finding = optional_prop (snd e) ''finding''\<rparr>)
                     (take 3 (law_entries (nullish_or (laws r) (JObject []))))))"
proof -
  have "nullish_or (topFixes r) (JArray []) = JArray []"
    using assms(1) by (simp add: nullish_or_def)
  then show ?thesis
    by (simp add: render_report_def Let_def map_cards_nonnull [OF assms(2)])
qed

lemma ResultsPage_placeholder:
  assumes "findUnique st i = Some r \<and> topFixes r = JArray [] \<and>
       list_all (\<lambda>e. snd e \<noteq> JNull \<and> snd e \<noteq> JUndefined)
         (take 3 (law_entries (nullish_or (laws r) (JObject []))))"
  shows "ResultsPage st i =
           Inr (Report (imageDataUrl r) (score r)
                  (shown_narrative_of (nullish_or (laws r) (JObject []))) [NoIssues]
                  (map (\<lambda>e. \<lparr>card_key = fst e, card_title = optional_prop (snd e) ''title'',
                                card_tag = severityStyle (optional_prop (snd e) ''severity''),
                                card_severity = optional_prop (snd e) ''severity'',
                                card_finding = optional_prop (snd e) ''finding''\<rparr>)
                     (take 3 (law_entries (nullish_or (laws r) (JObject []))))))"
  using assms by (simp add: ResultsPage_def render_report_no_fixes)

lemma ResultsPage_placeholder_object:
  assumes "findUnique st i = Some r \<and> topFixes r = JArray [] \<and> laws r = JObject kvs \<and>
       list_all (\<lambda>e. snd e \<noteq> JNull \<and> snd e \<noteq> JUndefined) kvs"
  shows "\<exists>cs. ResultsPage st i =
           Inr (Report (imageDataUrl r) (score r) (shown_narrative_of (JObject kvs)) [NoIssues] cs)"
proof -
  from assms have n: "nullish_or (laws r) (JObject []) = JObject kvs"
    by (simp add: nullish_or_def)
  from assms have "list_all (\<lambda>e. snd e \<noteq> JNull \<and> snd e \<noteq> JUndefined)
         (take 3 (law_entries (nullish_or (laws r) (JObject []))))"
    unfolding n by (intro shown_entries_nonnull) simp
  with assms have "ResultsPage st i =
           Inr (Report (imageDataUrl r) (score r)
                  (shown_narrative_of (nullish_or (laws r) (JObject []))) [NoIssues]
                  (map (\<lambda>e. \<lparr>card_key = fst e, card_title = optional_prop (snd e) ''title'',
                                card_tag = severityStyle (optional_prop (snd e) ''severity''),
                                card_severity = optional_prop (snd e) ''severity'',
                                card_finding = optional_prop (snd e) ''finding''\<rparr>)
                     (take 3 (law_entries (nullish_or (laws r) (JObject []))))))"
    by (intro ResultsPage_placeholder) simp
  then show ?thesis unfolding n by blast
qed

text \<open>
  Claim C9, as amended. An identifier with no matching report gives the view
  \<^verbatim>\<open>Report not found\<close>, an ordinary result and no exception. For a report whose stored
  \<^verbatim>\<open>topFixes\<close> is the empty list and whose law entries shown by the page (the first
  three other than \<^verbatim>\<open>narrative\<close>) are not \<^verbatim>\<open>null\<close>, the page is the report
  view whose top-fix list is the one placeholder line, with a card for each of those
  entries; this is so in particular when no member of the stored laws mapping is
  \<^verbatim>\<open>null\<close>.
\<close>

theorem not_found_view_and_placeholder:
  "(findUnique st i = None \<longrightarrow> ResultsPage st i = Inr NotFound)
   \<and> (findUnique st i = Some r \<and> topFixes r = JArray [] \<and>
       list_all (\<lambda>e. snd e \<noteq> JNull \<and> snd e \<noteq> JUndefined)
         (take 3 (law_entries (nullish_or (laws r) (JObject []))))
      \<longrightarrow> ResultsPage st i =
           Inr (Report (imageDataUrl r) (score r)
                  (shown_narrative_of (nullish_or (laws r) (JObject []))) [NoIssues]
                  (map (\<lambda>e. \<lparr>card_key = fst e, card_title = optional_prop (snd e) ''title'',
                                card_tag = severityStyle (optional_prop (snd e) ''severity''),
                                card_severity = optional_prop (snd e) ''severity'',
                                card_finding = optional_prop (snd e) ''finding''\<rparr>)
                     (take 3 (law_entries (nullish_or (laws r) (JObject [])))))))
   \<and> (findUnique st i = Some r \<and> topFixes r = JArray [] \<and> laws r = JObject kvs \<and>
       list_all (\<lambda>e. snd e \<noteq> JNull \<and> snd e \<noteq> JUndefined) kvs
      \<longrightarrow> (\<exists>cs. ResultsPage st i =
             Inr (Report (imageDataUrl r) (score r) (shown_narrative_of (JObject kvs)) [NoIssues] cs)))"
  by (rule conjI [OF impI conjI [OF impI impI]])
     (erule ResultsPage_not_found, erule ResultsPage_placeholder, erule ResultsPage_placeholder_object)

theorem not_found_view_and_placeholder_witness:
  "ResultsPage [] ''missing'' = Inr NotFound
   \<and> ResultsPage
       [\<lparr>id' = ''r1'', createdAt = 7, imageDataUrl = ''data:image/jpeg;base64,AAAA'', goal = [],
         navItems = 0, ctaCount = 0, formFields = 0, score = 90, topFixes = JArray [],
         laws = JObject [(''narrative'', JString ''Clear page.''),
                         (''hicks'', JObject [(''title'', JString ''Hick''), (''severity'', JString ''Low''),
                                              (''finding'', JString ''Few choices'')])]\<rparr>] ''r1''
     = Inr (Report ''data:image/jpeg;base64,AAAA'' 90 ''Clear page.'' [NoIssues]
             [\<lparr>card_key = ''hicks'', card_title = JString ''Hick'',
               card_tag = \<lparr>borderColor = ''#666'', background = ''#1a1a1a'', color = ''#b0b0b0''\<rparr>,
               card_severity = JString ''Low'', card_finding = JString ''Few choices''\<rparr>])"
  using not_found_view_and_placeholder [of "[]" "''missing''"]
    not_found_view_and_placeholder
      [of "[\<lparr>id' = ''r1'', createdAt = 7, imageDataUrl = ''data:image/jpeg;base64,AAAA'', goal = [],
         navItems = 0, ctaCount = 0, formFields = 0, score = 90, topFixes = JArray [],
         laws = JObject [(''narrative'', JString ''Clear page.''),
                         (''hicks'', JObject [(''title'', JString ''Hick''), (''severity'', JString ''Low''),
                                              (''finding'', JString ''Few choices'')])]\<rparr>]" "''r1''"
          "\<lparr>id' = ''r1'', createdAt = 7, imageDataUrl = ''data:image/jpeg;base64,AAAA'', goal = [],
         navItems = 0, ctaCount = 0, formFields = 0, score = 90, topFixes = JArray [],
         laws = JObject [(''narrative'', JString ''Clear page.''),
                         (''hicks'', JObject [(''title'', JString ''Hick''), (''severity'', JString ''Low''),
                                              (''finding'', JString ''Few choices'')])]\<rparr>"
          "[(''narrative'', JString ''Clear page.''),
                         (''hicks'', JObject [(''title'', JString ''Hick''), (''severity'', JString ''Low''),
                                              (''finding'', JString ''Few choices'')])]"]
  by (simp add: ResultsPage_def findUnique_def render_report_def nullish_or_def law_entries_def
      define_all_def obj_set_def has_key_def obj_get_def is_array_index_def is_digit_def
      law_card_of_def severityStyle_def shown_narrative_of_def)

text \<open>
  Claim C9 as stated fails: the reply
  \<^verbatim>\<open>{"score": 80, "topFixes": [], "narrative": "Clear page.", "laws": {"hicks": null}}\<close>
  is stored by the endpoint with an empty \<^verbatim>\<open>topFixes\<close> list, and the page of that
  report throws on \<^verbatim>\<open>item.severity\<close> of the \<^verbatim>\<open>null\<close> entry, so it renders no
  placeholder.
\<close>

theorem null_law_entry_counterexample:
  "map topFixes (snd (POST (\<lambda>t. Some (JObject [(''score'', JNumber (Fin 80)), (''topFixes'', JArray []),
                (''narrative'', JString ''Clear page.''),
                (''laws'', JObject [(''hicks'', JNull)])]))
          \<lparr>OPENAI_API_KEY = Some ''sk-test'',
           req_json = Inr (JObject [(''imageDataUrl'', JString ''data:image/jpeg;base64,AAAA'')]),
           model_content = Inr (Some ''reply''), new_id = ''r1'', now = 7\<rparr> [])) = [JArray []]
   \<and> ResultsPage
        (snd (POST (\<lambda>t. Some (JObject [(''score'', JNumber (Fin 80)), (''topFixes'', JArray []),
                (''narrative'', JString ''Clear page.''),
                (''laws'', JObject [(''hicks'', JNull)])]))
          \<lparr>OPENAI_API_KEY = Some ''sk-test'',
           req_json = Inr (JObject [(''imageDataUrl'', JString ''data:image/jpeg;base64,AAAA'')]),
           model_content = Inr (Some ''reply''), new_id = ''r1'', now = 7\<rparr> [])) ''r1''
      = Inl (cannot_read ''null'' ''severity'')"
  by (simp add: endpoint_defs is_array_index_def is_digit_def ResultsPage_def findUnique_def
      render_report_def nullish_or_def law_entries_def law_card_of_def)












section \<open>Properties of the client\<close>









text \<open>The flag of the analyze page: cleared by the \<^verbatim>\<open>finally\<close> whenever the request ran.\<close>

lemma AnalyzePage_clears_flag:
  assumes "imagePreview u = Some p" "p \<noteq> []" "\<not> isRunning u"
  shows "\<not> isRunning (runAnalysis_AnalyzePage f u)"
  using assms by (simp add: runAnalysis_AnalyzePage_def Let_def)

lemma HomePage_flag:
  assumes "imagePreview u = Some p" "p \<noteq> []" "\<not> isRunning u"
  shows "isRunning (analyze_HomePage f u) \<longleftrightarrow>
           (\<exists>data t. f = Replied True (Inr data) \<and> results_target data = Inr t)"
  using assms
  by (auto simp: analyze_HomePage_def Let_def split: fetched.splits sum.splits)

lemma UploadButton_flag:
  "isRunning (runAnalysis_UploadButton f u) \<longleftrightarrow>
     (\<exists>data t. f = Replied True (Inr data) \<and> results_target data = Inr t)"
  by (auto simp: runAnalysis_UploadButton_def Let_def split: fetched.splits sum.splits)

text \<open>
  Claim C6 on the success path, the request answered with status 200 and a
  \<^verbatim>\<open>reportId\<close>: the home page and the upload button leave \<^verbatim>\<open>isRunning\<close>
  set, and only the analyze page, which has the \<^verbatim>\<open>finally\<close>, clears it.
\<close>

theorem flag_stays_set_after_success:
  "isRunning (analyze_HomePage (Replied True (Inr (JObject [(''reportId'', JString ''r1'')])))
       \<lparr>imagePreview = Some ''data:image/jpeg;base64,AAAA'', isRunning = False, error = JNull,
        navigated = None, alerted = None\<rparr>)
   \<and> isRunning (runAnalysis_UploadButton (Replied True (Inr (JObject [(''reportId'', JString ''r1'')])))
       \<lparr>imagePreview = None, isRunning = False, error = JNull, navigated = None, alerted = None\<rparr>)
   \<and> \<not> isRunning (runAnalysis_AnalyzePage (Replied True (Inr (JObject [(''reportId'', JString ''r1'')])))
       \<lparr>imagePreview = Some ''data:image/jpeg;base64,AAAA'', isRunning = False, error = JNull,
        navigated = None, alerted = None\<rparr>)"
  by (simp add: analyze_HomePage_def runAnalysis_UploadButton_def runAnalysis_AnalyzePage_def
      results_target_def obj_get_def)

end
